theory Spec2Isabelle
  imports Main "HOL-Library.Word" "HOL-Library.Sublist"
begin

section \<open>JavaScript values, errors and requests\<close>

text \<open>
  The provider (src/js/src/WalletLinkProvider.ts) handles loosely typed values:
  request parameters are \<^verbatim>\<open>unknown[]\<close>, the body of a remote answer is whatever
  \<^verbatim>\<open>JSON.parse\<close> gives. They are modelled by one datatype of JavaScript values.
  Numbers are integers here: the provider only tests a number for truthiness and
  copies it. A string is a list of characters, one per code unit; code units above
  255 are not represented.
\<close>

datatype jsval =
    JUndefined
  | JNull
  | JBool bool
  | JNum int
  | JStr string
  | JArr "jsval list"
  | JObj "(string \<times> jsval) list"

text \<open>
  \<^verbatim>\<open>ProviderErrorCode\<close> is an enum declared in ./types; the provider names three of
  its members. A \<^verbatim>\<open>ProviderError\<close> built from a remote answer carries whatever
  value the answer had under \<^verbatim>\<open>error.code\<close>.
\<close>

datatype ProviderErrorCode =
    UNAUTHORIZED
  | USER_DENIED_REQUEST_ACCOUNTS
  | USER_DENIED_REQUEST_SIGNATURE
  | Code jsval

text \<open>
  What a \<^verbatim>\<open>throw\<close> or a rejected promise carries: \<^verbatim>\<open>new Error(msg)\<close>,
  \<^verbatim>\<open>new ProviderError(message, code, data)\<close> with its constructor arguments,
  the engine's \<^verbatim>\<open>TypeError\<close> for a property read on \<^verbatim>\<open>null\<close> or
  \<^verbatim>\<open>undefined\<close>, or any other value a collaborator rejects with.
\<close>

datatype exn =
    Error string
  | ProviderError jsval ProviderErrorCode jsval
  | TypeError string
  | Thrown jsval

type_synonym buffer = "8 word list"

text \<open>Truthiness, as \<^verbatim>\<open>if (v)\<close>, \<^verbatim>\<open>!v\<close>, \<^verbatim>\<open>v || w\<close> and \<^verbatim>\<open>v ? a : b\<close> test it.\<close>

fun truthy :: "jsval \<Rightarrow> bool" where
  "truthy JUndefined = False"
| "truthy JNull = False"
| "truthy (JBool b) = b"
| "truthy (JNum n) = (n \<noteq> 0)"
| "truthy (JStr s) = (s \<noteq> [])"
| "truthy (JArr xs) = True"
| "truthy (JObj ps) = True"

text \<open>\<^verbatim>\<open>v != null\<close>: false exactly for \<^verbatim>\<open>null\<close> and \<^verbatim>\<open>undefined\<close>.\<close>

fun not_nullish :: "jsval \<Rightarrow> bool" where
  "not_nullish JUndefined = False"
| "not_nullish JNull = False"
| "not_nullish v = True"

text \<open>
  A property read \<^verbatim>\<open>v.k\<close> for the keys the provider reads (message, result, error,
  code, data, from, to, value, nonce, gas, gasPrice, id): none of them is defined on
  a primitive or an array, and the read throws on \<^verbatim>\<open>null\<close> and \<^verbatim>\<open>undefined\<close>.
\<close>

fun get_prop :: "jsval \<Rightarrow> string \<Rightarrow> exn + jsval" where
  "get_prop JUndefined k = Inl (TypeError ''Cannot read properties of undefined'')"
| "get_prop JNull k = Inl (TypeError ''Cannot read properties of null'')"
| "get_prop (JObj ps) k = Inr (case map_of ps k of None \<Rightarrow> JUndefined | Some v \<Rightarrow> v)"
| "get_prop v k = Inr JUndefined"

text \<open>Decimal notation of a number, as \<^verbatim>\<open>toString(10)\<close> and array indices use it.\<close>

fun show_nat :: "nat \<Rightarrow> string" where
  "show_nat n =
     (if n < 10 then [''0123456789'' ! n]
      else show_nat (n div 10) @ [''0123456789'' ! (n mod 10)])"

declare show_nat.simps [simp del]

definition show_int :: "int \<Rightarrow> string" where
  "show_int i = (if i < 0 then CHR ''-'' # show_nat (nat (- i)) else show_nat (nat i))"

text \<open>An indexed read \<^verbatim>\<open>v[i]\<close> on a value that is neither \<^verbatim>\<open>null\<close> nor \<^verbatim>\<open>undefined\<close>.\<close>

fun js_index :: "jsval \<Rightarrow> nat \<Rightarrow> jsval" where
  "js_index (JArr xs) i = (if i < length xs then xs ! i else JUndefined)"
| "js_index (JStr s) i = (if i < length s then JStr [s ! i] else JUndefined)"
| "js_index (JObj ps) i = (case map_of ps (show_nat i) of None \<Rightarrow> JUndefined | Some v \<Rightarrow> v)"
| "js_index v i = JUndefined"

text \<open>\<^verbatim>\<open>JSONRPCRequest\<close> of src/js/src/types/JSONRPC.ts.\<close>

record JSONRPCRequest =
  req_id :: jsval
  req_method :: string
  req_params :: jsval

text \<open>\<^verbatim>\<open>EthereumTransactionParams\<close>, the result of \<^verbatim>\<open>_prepareTransactionParams\<close>.\<close>

record EthereumTransactionParams =
  fromAddress :: string
  toAddress :: "string option"
  weiValue :: int
  data :: buffer
  nonce :: "int option"
  gasPriceInWei :: "int option"
  gasLimit :: "int option"
  chainId :: int

section \<open>The provider, its collaborators and its effects\<close>

text \<open>
  The only property of the linking window the provider reads is \<^verbatim>\<open>opener\<close>.
\<close>

record window =
  opener :: bool

text \<open>
  Every call the provider makes on a collaborator (relay, filter polyfill, storage,
  fetch, the browser window) and every event it emits is appended to a trace.
\<close>

datatype effect =
    OpenWalletLinkWindow
  | FocusWalletLinkWindow
  | CloseWalletLinkWindow
  | WindowFocus
  | RequestEthereumAccounts string
  | SignEthereumMessage buffer string bool
  | EthereumAddressFromSignedMessage buffer buffer bool
  | SignEthereumTransaction EthereumTransactionParams
  | SubmitEthereumTransaction buffer int
  | SignAndSubmitEthereumTransaction EthereumTransactionParams
  | StorageSetItem string "string list"
  | Emit string "string list"
  | Fetch string JSONRPCRequest
  | UninstallFilter string
  | NewFilter jsval
  | NewBlockFilter
  | NewPendingTransactionFilter
  | GetFilterChanges string
  | GetFilterLogs string

text \<open>
  The mutable fields of the class: \<^verbatim>\<open>_addresses\<close>, \<^verbatim>\<open>_walletLinkWindow\<close>, and the
  trace of effects so far.
\<close>

record provider =
  addresses :: "string list"
  walletLinkWindow :: "window option"
  trace :: "effect list"

text \<open>
  The readonly fields of the class and the collaborators it calls. The helpers of
  ./util, ./walletLinkStorage, ./FilterPolyfill and ./WalletLinkRelay are not among
  the sources, so they are parameters: a helper that validates returns the error it
  throws or the value it accepts, a collaborator that answers with a promise returns
  the rejection or the fulfilment value. The last field is the engine's
  \<^verbatim>\<open>Number.prototype.toString(10)\<close> for the integers beyond the safe range, where
  the digits are those of a rounded double and the notation has an exponent from
  \<^verbatim>\<open>1e21\<close> on.
\<close>

record env =
  cfg_appName :: string
  cfg_chainId :: int
  cfg_jsonRpcUrl :: string
  cfg_providerId :: string
  ensureAddressString :: "jsval \<Rightarrow> exn + string"
  ensureHexString :: "jsval \<Rightarrow> exn + string"
  ensureBN :: "jsval \<Rightarrow> exn + int"
  ensureBuffer :: "jsval \<Rightarrow> exn + buffer"
  ensureIntNumber :: "jsval \<Rightarrow> exn + int"
  storage_setItem :: "string \<Rightarrow> string list \<Rightarrow> exn + unit"
  openWalletLinkWindow :: "window option"
  requestEthereumAccounts :: "string \<Rightarrow> exn + jsval"
  signEthereumMessage :: "buffer \<Rightarrow> string \<Rightarrow> bool \<Rightarrow> exn + jsval"
  ethereumAddressFromSignedMessage :: "buffer \<Rightarrow> buffer \<Rightarrow> bool \<Rightarrow> exn + jsval"
  signEthereumTransaction :: "EthereumTransactionParams \<Rightarrow> exn + jsval"
  submitEthereumTransaction :: "buffer \<Rightarrow> int \<Rightarrow> exn + jsval"
  signAndSubmitEthereumTransaction :: "EthereumTransactionParams \<Rightarrow> exn + jsval"
  uninstallFilter :: "string \<Rightarrow> bool"
  newFilter :: "jsval \<Rightarrow> exn + jsval"
  newBlockFilter :: "exn + jsval"
  newPendingTransactionFilter :: "exn + jsval"
  getFilterChanges :: "string \<Rightarrow> exn + jsval"
  getFilterLogs :: "string \<Rightarrow> exn + jsval"
  fetch_json :: "string \<Rightarrow> JSONRPCRequest \<Rightarrow> exn + jsval"
  engine_toString :: "int \<Rightarrow> string"

definition log :: "effect \<Rightarrow> provider \<Rightarrow> provider" where
  "log e st = st\<lparr>trace := trace st @ [e]\<rparr>"

section \<open>Sample collaborators\<close>

text \<open>
  Concrete collaborators, used where a property is evaluated on an explicit input.
  The general theorems hold for every environment.
\<close>

definition to_lower :: "char \<Rightarrow> char" where
  "to_lower c =
     (case map_of (zip ''ABCDEFGHIJKLMNOPQRSTUVWXYZ'' ''abcdefghijklmnopqrstuvwxyz'') c of
        Some l \<Rightarrow> l
      | None \<Rightarrow> c)"

definition hex_digit :: "char \<Rightarrow> nat option" where
  "hex_digit c =
     map_of (zip ''0123456789abcdef'' [0, 1, 2, 3, 4, 5, 6, 7, 8, 9, 10, 11, 12, 13, 14, 15])
       (to_lower c)"

definition dec_digit :: "char \<Rightarrow> nat option" where
  "dec_digit c = map_of (zip ''0123456789'' [0, 1, 2, 3, 4, 5, 6, 7, 8, 9]) c"

fun parse_digits :: "nat \<Rightarrow> (char \<Rightarrow> nat option) \<Rightarrow> nat \<Rightarrow> string \<Rightarrow> nat option" where
  "parse_digits b d acc [] = Some acc"
| "parse_digits b d acc (c # cs) =
     (case d c of None \<Rightarrow> None | Some v \<Rightarrow> parse_digits b d (acc * b + v) cs)"

fun strip0x :: "string \<Rightarrow> string" where
  "strip0x (a # b # cs) = (if a = CHR ''0'' \<and> b = CHR ''x'' then cs else a # b # cs)"
| "strip0x cs = cs"

fun hex_bytes :: "string \<Rightarrow> buffer option" where
  "hex_bytes [] = Some []"
| "hex_bytes [c] = None"
| "hex_bytes (a # b # cs) =
     (case (hex_digit a, hex_digit b, hex_bytes cs) of
        (Some x, Some y, Some bs) \<Rightarrow> Some (of_nat (16 * x + y) # bs)
      | _ \<Rightarrow> None)"

text \<open>
  Modelled from the spec: \<^verbatim>\<open>ensureAddressString\<close> of ./util is not among the sources.
  "Each address is validated and normalized (case/format) before acceptance": a
  string of \<^verbatim>\<open>0x\<close> and forty hexadecimal digits is accepted and put in lower case,
  anything else is refused.
\<close>

fun sample_ensureAddressString :: "jsval \<Rightarrow> exn + string" where
  "sample_ensureAddressString (JStr s) =
     (if take 2 s = ''0x'' \<and> length s = 42 \<and> (\<forall>c \<in> set (drop 2 s). hex_digit c \<noteq> None)
      then Inr (map to_lower s)
      else Inl (Error ''Invalid Ethereum address''))"
| "sample_ensureAddressString v = Inl (Error ''Invalid Ethereum address'')"

declare sample_ensureAddressString.simps [simp del]

text \<open>
  Modelled from the spec: \<^verbatim>\<open>ensureHexString\<close> of ./util is not among the sources.
  "malformed values fail with InvalidInput": a non-empty string of hexadecimal
  digits, with or without \<^verbatim>\<open>0x\<close>, is accepted in lower case without the prefix.
\<close>

fun sample_ensureHexString :: "jsval \<Rightarrow> exn + string" where
  "sample_ensureHexString (JStr s) =
     (if strip0x s \<noteq> [] \<and> (\<forall>c \<in> set (strip0x s). hex_digit c \<noteq> None)
      then Inr (map to_lower (strip0x s))
      else Inl (Error ''Not a hexadecimal string''))"
| "sample_ensureHexString v = Inl (Error ''Not a hexadecimal string'')"

declare sample_ensureHexString.simps [simp del]

text \<open>
  Modelled from the spec: \<^verbatim>\<open>ensureBN\<close> and \<^verbatim>\<open>ensureIntNumber\<close> of ./util are not
  among the sources. "Numeric-like fields accept hex-string, decimal-string, or
  native-number representations and must parse as non-negative integers; malformed
  values fail with InvalidInput."
\<close>

fun sample_ensureBN :: "jsval \<Rightarrow> exn + int" where
  "sample_ensureBN (JNum n) = (if 0 \<le> n then Inr n else Inl (Error ''Not an integer''))"
| "sample_ensureBN (JStr s) =
     (if s = [] \<or> strip0x s = [] then Inl (Error ''Not an integer'')
      else if take 2 s = ''0x'' then
        (case parse_digits 16 hex_digit 0 (strip0x s) of
           Some n \<Rightarrow> Inr (int n) | None \<Rightarrow> Inl (Error ''Not an integer''))
      else
        (case parse_digits 10 dec_digit 0 s of
           Some n \<Rightarrow> Inr (int n) | None \<Rightarrow> Inl (Error ''Not an integer'')))"
| "sample_ensureBN v = Inl (Error ''Not an integer'')"

declare sample_ensureBN.simps [simp del]

text \<open>
  Modelled from the spec: \<^verbatim>\<open>ensureBuffer\<close> of ./util is not among the sources.
  "data (byte string)": a string of an even number of hexadecimal digits, with or
  without \<^verbatim>\<open>0x\<close>, is read as bytes.
\<close>

fun sample_ensureBuffer :: "jsval \<Rightarrow> exn + buffer" where
  "sample_ensureBuffer (JStr s) =
     (case hex_bytes (strip0x s) of
        Some bs \<Rightarrow> Inr bs | None \<Rightarrow> Inl (Error ''Not binary data''))"
| "sample_ensureBuffer v = Inl (Error ''Not binary data'')"

declare sample_ensureBuffer.simps [simp del]

text \<open>
  A sample of the engine's notation for large integers: the digits without their
  trailing zeros, with an exponent from \<^verbatim>\<open>1e21\<close> on (\<^verbatim>\<open>"1e+21"\<close>,
  \<^verbatim>\<open>"1.5e+22"\<close>). It does not round to the digits of a double; the sample chain
  id is 1 and never reaches it.
\<close>

fun drop_zeros :: "string \<Rightarrow> string" where
  "drop_zeros [] = []"
| "drop_zeros (c # cs) = (if c = CHR ''0'' then drop_zeros cs else c # cs)"

definition sample_digits :: "nat \<Rightarrow> string" where
  "sample_digits n =
     (if n < 10 ^ 21 then show_nat n
      else
        (let ds = show_nat n; sig = rev (drop_zeros (rev ds)) in
         hd sig # (if tl sig = [] then [] else CHR ''.'' # tl sig) @ ''e+'' @ show_nat (length ds - 1)))"

definition sample_engine_toString :: "int \<Rightarrow> string" where
  "sample_engine_toString n =
     (if n < 0 then CHR ''-'' # sample_digits (nat (- n)) else sample_digits (nat n))"

definition alice :: string where
  "alice = ''0x00000000000000000000000000000000000a11ce''"

definition bob :: string where
  "bob = ''0x0000000000000000000000000000000000000b0b''"

text \<open>
  A relay and a wallet user that approve everything, a storage that accepts every
  write, a remote node that answers \<^verbatim>\<open>{"jsonrpc":"2.0","id":1,"result":"0x10"}\<close>.
\<close>

definition env0 :: env where
  "env0 = \<lparr>
     cfg_appName = ''DApp'',
     cfg_chainId = 1,
     cfg_jsonRpcUrl = ''https://node.example/rpc'',
     cfg_providerId = ''0123456789'',
     ensureAddressString = sample_ensureAddressString,
     ensureHexString = sample_ensureHexString,
     ensureBN = sample_ensureBN,
     ensureBuffer = sample_ensureBuffer,
     ensureIntNumber = sample_ensureBN,
     storage_setItem = (\<lambda>key value. Inr ()),
     openWalletLinkWindow = Some \<lparr>opener = True\<rparr>,
     requestEthereumAccounts = (\<lambda>appName. Inr (JObj [(''result'', JArr [JStr alice])])),
     signEthereumMessage = (\<lambda>message address addPrefix. Inr (JObj [(''result'', JStr ''0x5161'')])),
     ethereumAddressFromSignedMessage =
       (\<lambda>message signature addPrefix. Inr (JObj [(''result'', JStr alice)])),
     signEthereumTransaction = (\<lambda>tx. Inr (JObj [(''result'', JStr ''0xf86b'')])),
     submitEthereumTransaction = (\<lambda>signedTransaction chain. Inr (JObj [(''result'', JStr ''0x7a5c'')])),
     signAndSubmitEthereumTransaction = (\<lambda>tx. Inr (JObj [(''result'', JStr ''0x7a5c'')])),
     uninstallFilter = (\<lambda>filterId. True),
     newFilter = (\<lambda>param. Inr (JStr ''0x1'')),
     newBlockFilter = Inr (JStr ''0x2''),
     newPendingTransactionFilter = Inr (JStr ''0x3''),
     getFilterChanges = (\<lambda>filterId. Inr (JObj [(''jsonrpc'', JStr ''2.0''), (''id'', JNum 0), (''result'', JArr [])])),
     getFilterLogs = (\<lambda>filterId. Inr (JObj [(''jsonrpc'', JStr ''2.0''), (''id'', JNum 0), (''result'', JArr [])])),
     fetch_json = (\<lambda>url request. Inr (JObj [(''jsonrpc'', JStr ''2.0''), (''id'', JNum 1), (''result'', JStr ''0x10'')])),
     engine_toString = sample_engine_toString
   \<rparr>"

text \<open>
  A wallet user who refuses: the relay rejects the account request and the message
  signature with a denial, the transaction signature with a time-out, and the
  submission with a rejection that is not an \<^verbatim>\<open>Error\<close> object.
\<close>

definition env_refusing :: env where
  "env_refusing = env0\<lparr>
     requestEthereumAccounts := (\<lambda>appName. Inl (Error ''User denied account access'')),
     signEthereumMessage := (\<lambda>message address addPrefix. Inl (Error ''Request REJECTED by the user'')),
     signEthereumTransaction := (\<lambda>tx. Inl (Error ''relay timed out'')),
     signAndSubmitEthereumTransaction :=
       (\<lambda>tx. Inl (Thrown (JObj [(''message'', JStr ''user Rejected the transaction'')])))\<rparr>"

definition unauthorized :: provider where
  "unauthorized = \<lparr>addresses = [], walletLinkWindow = None, trace = []\<rparr>"

definition authorized :: provider where
  "authorized = \<lparr>addresses = [alice], walletLinkWindow = None, trace = []\<rparr>"

text \<open>The same with a storage whose quota is exhausted.\<close>

definition env_storage_full :: env where
  "env_storage_full = env0\<lparr>storage_setItem := (\<lambda>key value. Inl (Error ''QuotaExceededError''))\<rparr>"

section \<open>The synchronous surface\<close>

text \<open>\<^verbatim>\<open>request.params || []\<close>\<close>

definition params_of :: "JSONRPCRequest \<Rightarrow> jsval" where
  "params_of request = (if truthy (req_params request) then req_params request else JArr [])"

text \<open>
  \<^verbatim>\<open>get selectedAddress\<close>: \<^verbatim>\<open>this._addresses[0] || undefined\<close>, where \<^verbatim>\<open>None\<close>
  stands for \<^verbatim>\<open>undefined\<close>.
\<close>

definition selectedAddress :: "provider \<Rightarrow> string option" where
  "selectedAddress st =
     (case addresses st of
        [] \<Rightarrow> None
      | a # _ \<Rightarrow> (if truthy (JStr a) then Some a else None))"

definition eth_accounts :: "provider \<Rightarrow> jsval" where
  "eth_accounts st = JArr (map JStr (addresses st))"

text \<open>\<^verbatim>\<open>this.selectedAddress || null\<close>\<close>

definition eth_coinbase :: "provider \<Rightarrow> jsval" where
  "eth_coinbase st =
     (case selectedAddress st of
        None \<Rightarrow> JNull
      | Some a \<Rightarrow> (if truthy (JStr a) then JStr a else JNull))"

text \<open>
  \<^verbatim>\<open>n.toString(10)\<close> for an integer \<^verbatim>\<open>n\<close>: all the digits of a safe integer
  (at most \<^verbatim>\<open>2^53 - 1\<close> in magnitude), the engine's notation beyond.
\<close>

definition number_toString :: "env \<Rightarrow> int \<Rightarrow> string" where
  "number_toString env n =
     (if - 9007199254740991 \<le> n \<and> n \<le> 9007199254740991 then show_int n
      else engine_toString env n)"

text \<open>\<^verbatim>\<open>this._chainId.toString(10)\<close>\<close>

definition net_version :: "env \<Rightarrow> jsval" where
  "net_version env = JStr (number_toString env (cfg_chainId env))"

definition eth_uninstallFilter :: "env \<Rightarrow> provider \<Rightarrow> jsval \<Rightarrow> (exn + jsval) \<times> provider" where
  "eth_uninstallFilter env st params =
     (case ensureHexString env (js_index params 0) of
        Inl e \<Rightarrow> (Inl e, st)
      | Inr filterId \<Rightarrow> (Inr (JBool (uninstallFilter env filterId)), log (UninstallFilter filterId) st))"

text \<open>
  \<^verbatim>\<open>_handleSynchronousMethods\<close>: the \<^verbatim>\<open>switch\<close> over the method name; the
  \<^verbatim>\<open>default\<close> branch returns \<^verbatim>\<open>undefined\<close>.
\<close>

definition handleSynchronousMethods ::
  "env \<Rightarrow> provider \<Rightarrow> JSONRPCRequest \<Rightarrow> (exn + jsval) \<times> provider" where
  "handleSynchronousMethods env st request =
     (let method = req_method request; params = params_of request in
      if method = ''eth_accounts'' then (Inr (eth_accounts st), st)
      else if method = ''eth_coinbase'' then (Inr (eth_coinbase st), st)
      else if method = ''eth_uninstallFilter'' then eth_uninstallFilter env st params
      else if method = ''net_version'' then (Inr (net_version env), st)
      else (Inr JUndefined, st))"

text \<open>A response object \<^verbatim>\<open>{ jsonrpc: "2.0", id: i, result: r }\<close>.\<close>

definition response :: "jsval \<Rightarrow> jsval \<Rightarrow> jsval" where
  "response i r = JObj [(''jsonrpc'', JStr ''2.0''), (''id'', i), (''result'', r)]"

definition synchronous_unsupported :: "string \<Rightarrow> exn" where
  "synchronous_unsupported method =
     Error (''WalletLink does not support calling '' @ method @
            '' synchronously without a callback. Please provide a callback parameter to call '' @
            method @ '' asynchronously.'')"

text \<open>
  \<^verbatim>\<open>_sendRequest\<close>, which \<^verbatim>\<open>send(request)\<close> reaches when its argument is one request
  object and there is no callback.
\<close>

definition sendRequest :: "env \<Rightarrow> provider \<Rightarrow> JSONRPCRequest \<Rightarrow> (exn + jsval) \<times> provider" where
  "sendRequest env st request =
     (case handleSynchronousMethods env st request of
        (Inl e, st') \<Rightarrow> (Inl e, st')
      | (Inr result, st') \<Rightarrow>
          (if result = JUndefined then (Inl (synchronous_unsupported (req_method request)), st')
           else (Inr (response (req_id request) result), st')))"

definition synchronous_table :: "string set" where
  "synchronous_table = {''eth_accounts'', ''eth_coinbase'', ''net_version'', ''eth_uninstallFilter''}"

section \<open>Relay rejections\<close>

text \<open>
  The regular expression \<^verbatim>\<open>/(denied|rejected)/i\<close>. With the flag \<^verbatim>\<open>i\<close> two
  characters match when their canonical (upper case) forms are equal; a character
  outside ASCII never has an ASCII letter as its canonical form, so only the ASCII
  letters need a table.
\<close>

definition canonicalize :: "char \<Rightarrow> char" where
  "canonicalize c =
     (case map_of (zip ''abcdefghijklmnopqrstuvwxyz'' ''ABCDEFGHIJKLMNOPQRSTUVWXYZ'') c of
        Some u \<Rightarrow> u
      | None \<Rightarrow> c)"

fun match_literal :: "string \<Rightarrow> string \<Rightarrow> bool" where
  "match_literal [] s = True"
| "match_literal (p # ps) [] = False"
| "match_literal (p # ps) (c # cs) = (canonicalize p = canonicalize c \<and> match_literal ps cs)"

text \<open>\<^verbatim>\<open>s.match(/(denied|rejected)/i)\<close>: the search tries every start position.\<close>

fun match_denied :: "string \<Rightarrow> bool" where
  "match_denied [] = False"
| "match_denied (c # cs) =
     (match_literal ''denied'' (c # cs) \<or> match_literal ''rejected'' (c # cs) \<or> match_denied cs)"

text \<open>
  The specification's wording of the same test, to be compared with
  \<^const>\<open>match_denied\<close>: the message contains "denied" or "rejected", letter case
  being ignored.
\<close>

definition spec_contains_denied_or_rejected :: "string \<Rightarrow> bool" where
  "spec_contains_denied_or_rejected m \<longleftrightarrow>
     sublist ''DENIED'' (map canonicalize m) \<or> sublist ''REJECTED'' (map canonicalize m)"

text \<open>
  \<^verbatim>\<open>err.message\<close>. A \<^verbatim>\<open>ProviderError\<close> (declared in ./types) gives the message it
  was constructed with.
\<close>

fun err_message :: "exn \<Rightarrow> exn + jsval" where
  "err_message (Error m) = Inr (JStr m)"
| "err_message (ProviderError m c d) = Inr m"
| "err_message (TypeError m) = Inr (JStr m)"
| "err_message (Thrown v) = get_prop v ''message''"

text \<open>
  The body of the \<^verbatim>\<open>catch (err)\<close> block that the five denial-capable handlers
  share, with the \<^verbatim>\<open>ProviderError\<close> each of them throws as first argument:
  \<^verbatim>\<open>if (typeof err.message === "string" && err.message.match(/(denied|rejected)/i))
  throw new ProviderError(...); throw err\<close>. The result is what the block throws.
\<close>

definition rethrow_denied :: "exn \<Rightarrow> exn \<Rightarrow> exn" where
  "rethrow_denied denied err =
     (case err_message err of
        Inl e \<Rightarrow> e
      | Inr (JStr m) \<Rightarrow> (if match_denied m then denied else err)
      | Inr _ \<Rightarrow> err)"

definition denied_accounts :: exn where
  "denied_accounts =
     ProviderError (JStr ''User denied account authorization'') USER_DENIED_REQUEST_ACCOUNTS JUndefined"

definition denied_message_signature :: exn where
  "denied_message_signature =
     ProviderError (JStr ''User denied message signature'') USER_DENIED_REQUEST_SIGNATURE JUndefined"

definition denied_transaction_signature :: exn where
  "denied_transaction_signature =
     ProviderError (JStr ''User denied transaction signature'') USER_DENIED_REQUEST_SIGNATURE JUndefined"

section \<open>The address store\<close>

definition and_then :: "exn + 'a \<Rightarrow> ('a \<Rightarrow> exn + 'b) \<Rightarrow> exn + 'b" where
  "and_then m f = (case m of Inl e \<Rightarrow> Inl e | Inr x \<Rightarrow> f x)"

text \<open>\<^verbatim>\<open>xs.map(x => f(x))\<close> for an \<^verbatim>\<open>f\<close> that may throw: the first throw ends the map.\<close>

fun map_throwing :: "('a \<Rightarrow> exn + 'b) \<Rightarrow> 'a list \<Rightarrow> exn + 'b list" where
  "map_throwing f [] = Inr []"
| "map_throwing f (x # xs) =
     (case f x of
        Inl e \<Rightarrow> Inl e
      | Inr y \<Rightarrow> (case map_throwing f xs of Inl e \<Rightarrow> Inl e | Inr ys \<Rightarrow> Inr (y # ys)))"

definition localStorageAddressesKey :: "env \<Rightarrow> string" where
  "localStorageAddressesKey env = ''WalletLinkProvider:'' @ cfg_providerId env @ '':addresses''"

text \<open>
  \<^verbatim>\<open>_setAddresses(addresses, persist)\<close>. The assignment to \<^verbatim>\<open>this._addresses\<close>
  happens once the whole map has returned; the storage write and the
  \<^verbatim>\<open>accountsChanged\<close> event follow it, with no \<^verbatim>\<open>try\<close> around either.
\<close>

definition setAddresses :: "env \<Rightarrow> provider \<Rightarrow> jsval \<Rightarrow> bool \<Rightarrow> (exn + unit) \<times> provider" where
  "setAddresses env st addrs persist =
     (case addrs of
        JArr xs \<Rightarrow>
          (case map_throwing (ensureAddressString env) xs of
             Inl e \<Rightarrow> (Inl e, st)
           | Inr as \<Rightarrow>
               (let st1 = st\<lparr>addresses := as\<rparr> in
                if persist then
                  (case storage_setItem env (localStorageAddressesKey env) as of
                     Inl e \<Rightarrow> (Inl e, log (StorageSetItem (localStorageAddressesKey env) as) st1)
                   | Inr u \<Rightarrow>
                       (Inr (),
                        log (Emit ''accountsChanged'' as)
                          (log (StorageSetItem (localStorageAddressesKey env) as) st1)))
                else (Inr (), log (Emit ''accountsChanged'' as) st1)))
      | _ \<Rightarrow> (Inl (Error ''addresses is not an array''), st))"

section \<open>Transaction normalization\<close>

definition requireAuthorization :: "provider \<Rightarrow> exn + unit" where
  "requireAuthorization st =
     (if length (addresses st) = 0
      then Inl (ProviderError (JStr ''Unauthorized'') UNAUTHORIZED JUndefined)
      else Inr ())"

text \<open>\<^verbatim>\<open>present ? ensure(v) : null\<close>\<close>

definition optional :: "bool \<Rightarrow> exn + 'a \<Rightarrow> exn + 'a option" where
  "optional present m = (if present then and_then m (\<lambda>x. Inr (Some x)) else Inr None)"

text \<open>
  \<^verbatim>\<open>_prepareTransactionParams(tx)\<close>. \<^verbatim>\<open>fromAddress\<close> is a validated address, the
  selected address, or \<^verbatim>\<open>undefined\<close> (\<^verbatim>\<open>None\<close>); \<^verbatim>\<open>!fromAddress\<close> also holds for
  the empty string.
\<close>

definition prepareTransactionParams ::
  "env \<Rightarrow> provider \<Rightarrow> jsval \<Rightarrow> exn + EthereumTransactionParams" where
  "prepareTransactionParams env st tx =
     and_then (get_prop tx ''from'') (\<lambda>tx_from.
     and_then (if truthy tx_from then and_then (ensureAddressString env tx_from) (\<lambda>a. Inr (Some a))
               else Inr (selectedAddress st)) (\<lambda>fromAddress.
     case fromAddress of
       None \<Rightarrow> Inl (Error ''Ethereum address is unavailable'')
     | Some a \<Rightarrow>
         if \<not> truthy (JStr a) then Inl (Error ''Ethereum address is unavailable'')
         else if a \<notin> set (addresses st) then Inl (Error ''Unknown Ethereum address'')
         else
           and_then (get_prop tx ''to'') (\<lambda>tx_to.
           and_then (optional (truthy tx_to) (ensureAddressString env tx_to)) (\<lambda>toAddr.
           and_then (get_prop tx ''value'') (\<lambda>tx_value.
           and_then (if not_nullish tx_value then ensureBN env tx_value else Inr 0) (\<lambda>wei.
           and_then (get_prop tx ''data'') (\<lambda>tx_data.
           and_then (if truthy tx_data then ensureBuffer env tx_data else Inr []) (\<lambda>bytes.
           and_then (get_prop tx ''nonce'') (\<lambda>tx_nonce.
           and_then (optional (not_nullish tx_nonce) (ensureIntNumber env tx_nonce)) (\<lambda>n.
           and_then (get_prop tx ''gasPrice'') (\<lambda>tx_gasPrice.
           and_then (optional (not_nullish tx_gasPrice) (ensureBN env tx_gasPrice)) (\<lambda>price.
           and_then (get_prop tx ''gas'') (\<lambda>tx_gas.
           and_then (optional (not_nullish tx_gas) (ensureBN env tx_gas)) (\<lambda>limit.
           Inr \<lparr>fromAddress = a, toAddress = toAddr, weiValue = wei, data = bytes, nonce = n,
                gasPriceInWei = price, gasLimit = limit, chainId = cfg_chainId env\<rparr>))))))))))))))"

section \<open>Relay-backed methods\<close>

text \<open>
  An \<^verbatim>\<open>async\<close> handler runs up to its \<^verbatim>\<open>await\<close> when it is called and resumes when
  the collaborator answers. Only \<^verbatim>\<open>_eth_requestAccounts\<close> touches the provider's
  fields after its \<^verbatim>\<open>await\<close>, so it is the only handler modelled in two halves; the
  others are modelled in one step, their collaborator's answer being a parameter.
  A task is a promise: settled with a rejection or a value, or still waiting for the
  relay's answer to \<^verbatim>\<open>requestEthereumAccounts\<close>.
\<close>

datatype task = Settled "exn + jsval" | Linking

text \<open>
  \<^verbatim>\<open>try { const res = await call; return { jsonrpc: "2.0", id: 0, result: res.result } }
  catch (err) { ... }\<close>, for the answer of the awaited call.
\<close>

definition try_relay :: "exn \<Rightarrow> exn + jsval \<Rightarrow> exn + jsval" where
  "try_relay denied answer =
     (case and_then answer (\<lambda>res. and_then (get_prop res ''result'') (\<lambda>r. Inr (response (JNum 0) r))) of
        Inl err \<Rightarrow> Inl (rethrow_denied denied err)
      | Inr r \<Rightarrow> Inr r)"

text \<open>The same without \<^verbatim>\<open>try\<close>.\<close>

definition plain_relay :: "exn + jsval \<Rightarrow> exn + jsval" where
  "plain_relay answer =
     and_then answer (\<lambda>res. and_then (get_prop res ''result'') (\<lambda>r. Inr (response (JNum 0) r)))"

text \<open>\<^verbatim>\<open>_eth_requestAccounts\<close> up to \<^verbatim>\<open>await this._relay.requestEthereumAccounts(...)\<close>.\<close>

definition eth_requestAccounts_begin :: "env \<Rightarrow> provider \<Rightarrow> task \<times> provider" where
  "eth_requestAccounts_begin env st =
     (if length (addresses st) > 0 then (Settled (Inr (response (JNum 0) (eth_accounts st))), st)
      else
        (let st1 =
           (case walletLinkWindow st of
              Some w \<Rightarrow>
                (if opener w then log FocusWalletLinkWindow st
                 else (log OpenWalletLinkWindow st)\<lparr>walletLinkWindow := openWalletLinkWindow env\<rparr>)
            | None \<Rightarrow> (log OpenWalletLinkWindow st)\<lparr>walletLinkWindow := openWalletLinkWindow env\<rparr>)
         in (Linking, log (RequestEthereumAccounts (cfg_appName env)) st1)))"

text \<open>
  \<^verbatim>\<open>_eth_requestAccounts\<close> from the relay's answer on: the \<^verbatim>\<open>catch\<close> block, the
  \<^verbatim>\<open>finally\<close> block, and the rest of the function.
\<close>

definition eth_requestAccounts_resume :: "env \<Rightarrow> provider \<Rightarrow> (exn + jsval) \<times> provider" where
  "eth_requestAccounts_resume env st =
     (let st1 =
        (case walletLinkWindow st of
           Some w \<Rightarrow> (log WindowFocus (log CloseWalletLinkWindow st))\<lparr>walletLinkWindow := None\<rparr>
         | None \<Rightarrow> st)
      in
      case requestEthereumAccounts env (cfg_appName env) of
        Inl err \<Rightarrow> (Inl (rethrow_denied denied_accounts err), st1)
      | Inr res \<Rightarrow>
          (case get_prop res ''result'' of
             Inl e \<Rightarrow> (Inl e, st1)
           | Inr result \<Rightarrow>
               (if \<not> truthy result then (Inl (Error ''accounts received is empty''), st1)
                else
                  (case setAddresses env st1 result True of
                     (Inl e, st2) \<Rightarrow> (Inl e, st2)
                   | (Inr u, st2) \<Rightarrow> (Inr (response (JNum 0) (eth_accounts st2)), st2)))))"

definition eth_requestAccounts :: "env \<Rightarrow> provider \<Rightarrow> (exn + jsval) \<times> provider" where
  "eth_requestAccounts env st =
     (case eth_requestAccounts_begin env st of
        (Settled out, st1) \<Rightarrow> (out, st1)
      | (Linking, st1) \<Rightarrow> eth_requestAccounts_resume env st1)"

definition eth_sign :: "env \<Rightarrow> provider \<Rightarrow> jsval \<Rightarrow> (exn + jsval) \<times> provider" where
  "eth_sign env st params =
     (case requireAuthorization st of Inl e \<Rightarrow> (Inl e, st) | Inr u \<Rightarrow>
      (case ensureBuffer env (js_index params 1) of Inl e \<Rightarrow> (Inl e, st) | Inr message \<Rightarrow>
      (case ensureAddressString env (js_index params 0) of Inl e \<Rightarrow> (Inl e, st) | Inr address \<Rightarrow>
        (try_relay denied_message_signature (signEthereumMessage env message address False),
         log (SignEthereumMessage message address False) st))))"

definition eth_ecRecover :: "env \<Rightarrow> provider \<Rightarrow> jsval \<Rightarrow> (exn + jsval) \<times> provider" where
  "eth_ecRecover env st params =
     (case ensureBuffer env (js_index params 0) of Inl e \<Rightarrow> (Inl e, st) | Inr message \<Rightarrow>
      (case ensureBuffer env (js_index params 1) of Inl e \<Rightarrow> (Inl e, st) | Inr signature \<Rightarrow>
        (plain_relay (ethereumAddressFromSignedMessage env message signature False),
         log (EthereumAddressFromSignedMessage message signature False) st)))"

definition personal_sign :: "env \<Rightarrow> provider \<Rightarrow> jsval \<Rightarrow> (exn + jsval) \<times> provider" where
  "personal_sign env st params =
     (case requireAuthorization st of Inl e \<Rightarrow> (Inl e, st) | Inr u \<Rightarrow>
      (case ensureBuffer env (js_index params 0) of Inl e \<Rightarrow> (Inl e, st) | Inr message \<Rightarrow>
      (case ensureAddressString env (js_index params 1) of Inl e \<Rightarrow> (Inl e, st) | Inr address \<Rightarrow>
        (try_relay denied_message_signature (signEthereumMessage env message address True),
         log (SignEthereumMessage message address True) st))))"

definition personal_ecRecover :: "env \<Rightarrow> provider \<Rightarrow> jsval \<Rightarrow> (exn + jsval) \<times> provider" where
  "personal_ecRecover env st params =
     (case ensureBuffer env (js_index params 0) of Inl e \<Rightarrow> (Inl e, st) | Inr message \<Rightarrow>
      (case ensureBuffer env (js_index params 1) of Inl e \<Rightarrow> (Inl e, st) | Inr signature \<Rightarrow>
        (plain_relay (ethereumAddressFromSignedMessage env message signature True),
         log (EthereumAddressFromSignedMessage message signature True) st)))"

text \<open>\<^verbatim>\<open>(params[0] as any) || {}\<close>\<close>

definition tx_argument :: "jsval \<Rightarrow> jsval" where
  "tx_argument params = (if truthy (js_index params 0) then js_index params 0 else JObj [])"

definition eth_signTransaction :: "env \<Rightarrow> provider \<Rightarrow> jsval \<Rightarrow> (exn + jsval) \<times> provider" where
  "eth_signTransaction env st params =
     (case requireAuthorization st of Inl e \<Rightarrow> (Inl e, st) | Inr u \<Rightarrow>
      (case prepareTransactionParams env st (tx_argument params) of Inl e \<Rightarrow> (Inl e, st) | Inr tx \<Rightarrow>
        (try_relay denied_transaction_signature (signEthereumTransaction env tx),
         log (SignEthereumTransaction tx) st)))"

definition eth_sendRawTransaction :: "env \<Rightarrow> provider \<Rightarrow> jsval \<Rightarrow> (exn + jsval) \<times> provider" where
  "eth_sendRawTransaction env st params =
     (case ensureBuffer env (js_index params 0) of Inl e \<Rightarrow> (Inl e, st) | Inr signedTransaction \<Rightarrow>
        (plain_relay (submitEthereumTransaction env signedTransaction (cfg_chainId env)),
         log (SubmitEthereumTransaction signedTransaction (cfg_chainId env)) st))"

definition eth_sendTransaction :: "env \<Rightarrow> provider \<Rightarrow> jsval \<Rightarrow> (exn + jsval) \<times> provider" where
  "eth_sendTransaction env st params =
     (case requireAuthorization st of Inl e \<Rightarrow> (Inl e, st) | Inr u \<Rightarrow>
      (case prepareTransactionParams env st (tx_argument params) of Inl e \<Rightarrow> (Inl e, st) | Inr tx \<Rightarrow>
        (try_relay denied_transaction_signature (signAndSubmitEthereumTransaction env tx),
         log (SignAndSubmitEthereumTransaction tx) st)))"

section \<open>Filter methods and the remote fallback\<close>

text \<open>
  \<^verbatim>\<open>_handleAsynchronousFilterMethods\<close>: \<^verbatim>\<open>None\<close> stands for \<^verbatim>\<open>undefined\<close>, the
  method is not a filter method. \<^verbatim>\<open>_eth_getFilterChanges\<close> and
  \<^verbatim>\<open>_eth_getFilterLogs\<close> are not \<^verbatim>\<open>async\<close>: a failed validation throws into the
  \<^verbatim>\<open>try\<close> of \<^verbatim>\<open>_sendRequestAsync\<close>, which rejects with it, and their response is
  the polyfill's own.
\<close>

definition handleAsynchronousFilterMethods ::
  "env \<Rightarrow> provider \<Rightarrow> JSONRPCRequest \<Rightarrow> (exn + jsval) option \<times> provider" where
  "handleAsynchronousFilterMethods env st request =
     (let method = req_method request; params = params_of request in
      if method = ''eth_newFilter'' then
        (Some (and_then (newFilter env (js_index params 0)) (\<lambda>filterId. Inr (response (JNum 0) filterId))),
         log (NewFilter (js_index params 0)) st)
      else if method = ''eth_newBlockFilter'' then
        (Some (and_then (newBlockFilter env) (\<lambda>filterId. Inr (response (JNum 0) filterId))),
         log NewBlockFilter st)
      else if method = ''eth_newPendingTransactionFilter'' then
        (Some (and_then (newPendingTransactionFilter env) (\<lambda>filterId. Inr (response (JNum 0) filterId))),
         log NewPendingTransactionFilter st)
      else if method = ''eth_getFilterChanges'' then
        (case ensureHexString env (js_index params 0) of
           Inl e \<Rightarrow> (Some (Inl e), st)
         | Inr filterId \<Rightarrow> (Some (getFilterChanges env filterId), log (GetFilterChanges filterId) st))
      else if method = ''eth_getFilterLogs'' then
        (case ensureHexString env (js_index params 0) of
           Inl e \<Rightarrow> (Some (Inl e), st)
         | Inr filterId \<Rightarrow> (Some (getFilterLogs env filterId), log (GetFilterLogs filterId) st))
      else (None, st))"

text \<open>
  The end of \<^verbatim>\<open>_handleAsynchronousMethods\<close>: one \<^verbatim>\<open>fetch\<close> of the configured URL,
  whose parsed body (or failure) is \<^verbatim>\<open>fetch_json\<close>, and the two checks on the body.
\<close>

definition remote_fallback :: "env \<Rightarrow> provider \<Rightarrow> JSONRPCRequest \<Rightarrow> (exn + jsval) \<times> provider" where
  "remote_fallback env st request =
     (and_then (fetch_json env (cfg_jsonRpcUrl env) request) (\<lambda>json.
        if \<not> truthy json
        then Inl (ProviderError (JStr ''unexpected response'') (Code JUndefined) JUndefined)
        else
          and_then (get_prop json ''error'') (\<lambda>error.
            if truthy error then
              and_then (get_prop error ''message'') (\<lambda>message.
              and_then (get_prop error ''code'') (\<lambda>code.
              and_then (get_prop error ''data'') (\<lambda>d.
                Inl (ProviderError (if truthy message then message else JStr ''RPC Error'')
                       (Code code) d))))
            else Inr json)),
      log (Fetch (cfg_jsonRpcUrl env) request) st)"

definition relay_table :: "string set" where
  "relay_table = {''eth_requestAccounts'', ''eth_sign'', ''eth_ecRecover'', ''personal_sign'',
     ''personal_ecRecover'', ''eth_signTransaction'', ''eth_sendRawTransaction'',
     ''eth_sendTransaction''}"

definition filter_table :: "string set" where
  "filter_table = {''eth_newFilter'', ''eth_newBlockFilter'', ''eth_newPendingTransactionFilter'',
     ''eth_getFilterChanges'', ''eth_getFilterLogs''}"

definition settled :: "(exn + jsval) \<times> provider \<Rightarrow> task \<times> provider" where
  "settled r = (Settled (fst r), snd r)"

text \<open>
  \<^verbatim>\<open>_handleAsynchronousMethods\<close>, up to the first answer its handler waits for
  that is followed by a change of the provider.
\<close>

definition handleAsynchronousMethods_begin ::
  "env \<Rightarrow> provider \<Rightarrow> JSONRPCRequest \<Rightarrow> task \<times> provider" where
  "handleAsynchronousMethods_begin env st request =
     (let method = req_method request; params = params_of request in
      if method = ''eth_requestAccounts'' then eth_requestAccounts_begin env st
      else if method = ''eth_sign'' then settled (eth_sign env st params)
      else if method = ''eth_ecRecover'' then settled (eth_ecRecover env st params)
      else if method = ''personal_sign'' then settled (personal_sign env st params)
      else if method = ''personal_ecRecover'' then settled (personal_ecRecover env st params)
      else if method = ''eth_signTransaction'' then settled (eth_signTransaction env st params)
      else if method = ''eth_sendRawTransaction'' then settled (eth_sendRawTransaction env st params)
      else if method = ''eth_sendTransaction'' then settled (eth_sendTransaction env st params)
      else settled (remote_fallback env st request))"

text \<open>\<^verbatim>\<open>_handleAsynchronousMethods\<close>, from the call to the settlement of its promise.\<close>

definition handleAsynchronousMethods ::
  "env \<Rightarrow> provider \<Rightarrow> JSONRPCRequest \<Rightarrow> (exn + jsval) \<times> provider" where
  "handleAsynchronousMethods env st request =
     (case handleAsynchronousMethods_begin env st request of
        (Settled out, st1) \<Rightarrow> (out, st1)
      | (Linking, st1) \<Rightarrow> eth_requestAccounts_resume env st1)"

section \<open>The asynchronous surface\<close>

text \<open>
  The own enumerable properties \<^verbatim>\<open>{ ...v }\<close> copies: those of an object, the
  indexed elements of an array or a string, none of another value.
\<close>

fun spread :: "jsval \<Rightarrow> (string \<times> jsval) list" where
  "spread (JObj ps) = ps"
| "spread (JArr xs) = zip (map show_nat [0..<length xs]) xs"
| "spread (JStr s) = zip (map show_nat [0..<length s]) (map (\<lambda>c. JStr [c]) s)"
| "spread v = []"

fun obj_put :: "(string \<times> jsval) list \<Rightarrow> string \<Rightarrow> jsval \<Rightarrow> (string \<times> jsval) list" where
  "obj_put [] k v = [(k, v)]"
| "obj_put ((k', v') # ps) k v = (if k' = k then (k, v) # ps else (k', v') # obj_put ps k v)"

text \<open>\<^verbatim>\<open>{ ...res, id: request.id }\<close>\<close>

definition with_id :: "JSONRPCRequest \<Rightarrow> jsval \<Rightarrow> jsval" where
  "with_id request res = JObj (obj_put (spread res) ''id'' (req_id request))"

text \<open>\<^verbatim>\<open>.then(res => resolve({ ...res, id: request.id })).catch(err => reject(err))\<close>\<close>

definition resolve_with_id :: "JSONRPCRequest \<Rightarrow> exn + jsval \<Rightarrow> exn + jsval" where
  "resolve_with_id request out = (case out of Inl err \<Rightarrow> Inl err | Inr res \<Rightarrow> Inr (with_id request res))"

text \<open>
  \<^verbatim>\<open>_sendRequestAsync\<close>: the executor of the promise, up to the point where the
  promise is settled or waits for the relay's accounts.
\<close>

definition sendRequestAsync_begin :: "env \<Rightarrow> provider \<Rightarrow> JSONRPCRequest \<Rightarrow> task \<times> provider" where
  "sendRequestAsync_begin env st request =
     (case handleSynchronousMethods env st request of
        (Inl err, st1) \<Rightarrow> (Settled (Inl err), st1)
      | (Inr syncResult, st1) \<Rightarrow>
          (if syncResult \<noteq> JUndefined then (Settled (Inr (response (req_id request) syncResult)), st1)
           else
             (case handleAsynchronousFilterMethods env st1 request of
                (Some out, st2) \<Rightarrow> (Settled (resolve_with_id request out), st2)
              | (None, st2) \<Rightarrow>
                  (case handleAsynchronousMethods_begin env st2 request of
                     (Settled out, st3) \<Rightarrow> (Settled (resolve_with_id request out), st3)
                   | (Linking, st3) \<Rightarrow> (Linking, st3)))))"

definition sendRequestAsync_resume ::
  "env \<Rightarrow> provider \<Rightarrow> JSONRPCRequest \<Rightarrow> (exn + jsval) \<times> provider" where
  "sendRequestAsync_resume env st request =
     (case eth_requestAccounts_resume env st of (out, st1) \<Rightarrow> (resolve_with_id request out, st1))"

text \<open>\<^verbatim>\<open>_sendRequestAsync\<close> for one request on its own, from the call to the settlement.\<close>

definition sendRequestAsync :: "env \<Rightarrow> provider \<Rightarrow> JSONRPCRequest \<Rightarrow> (exn + jsval) \<times> provider" where
  "sendRequestAsync env st request =
     (case sendRequestAsync_begin env st request of
        (Settled out, st1) \<Rightarrow> (out, st1)
      | (Linking, st1) \<Rightarrow> sendRequestAsync_resume env st1 request)"

text \<open>
  \<^verbatim>\<open>send(method, params)\<close>, the overload for a method name: the request has the
  id 1 and the promise gives the result of the response.
\<close>

definition send_method :: "env \<Rightarrow> provider \<Rightarrow> string \<Rightarrow> jsval \<Rightarrow> (exn + jsval) \<times> provider" where
  "send_method env st method callbackOrParams =
     (let params =
        (case callbackOrParams of
           JArr xs \<Rightarrow> JArr xs
         | JUndefined \<Rightarrow> JArr []
         | v \<Rightarrow> JArr [v])
      in
      case sendRequestAsync env st \<lparr>req_id = JNum 1, req_method = method, req_params = params\<rparr> of
        (Inl err, st1) \<Rightarrow> (Inl err, st1)
      | (Inr res, st1) \<Rightarrow> (get_prop res ''result'', st1))"

definition enable :: "env \<Rightarrow> provider \<Rightarrow> (exn + jsval) \<times> provider" where
  "enable env st =
     (if length (addresses st) > 0 then (Inr (eth_accounts st), st)
      else send_method env st ''eth_requestAccounts'' JUndefined)"

section \<open>Batches and callbacks\<close>

text \<open>
  When the promise of a batch element settles. The executor of \<^verbatim>\<open>_sendRequestAsync\<close>
  settles it at once when a synchronous method returns or throws, and when the
  validation of \<^verbatim>\<open>_eth_getFilterChanges\<close> or \<^verbatim>\<open>_eth_getFilterLogs\<close> throws into
  its \<^verbatim>\<open>try\<close>. An \<^verbatim>\<open>async\<close> handler that returns or throws before it has called a
  collaborator settles its own promise at once, and the element's promise two
  microtasks later, through \<^verbatim>\<open>.then(...).catch(...)\<close>. Every other element settles
  after a collaborator (relay, filter polyfill, remote node) has answered. A handler
  has called its collaborator exactly when it has added the call to the trace.
\<close>

datatype moment = In_executor | In_handler | On_answer

definition settles :: "env \<Rightarrow> provider \<Rightarrow> JSONRPCRequest \<Rightarrow> moment" where
  "settles env st request =
     (case handleSynchronousMethods env st request of
        (Inl err, st1) \<Rightarrow> In_executor
      | (Inr syncResult, st1) \<Rightarrow>
          (if syncResult \<noteq> JUndefined then In_executor
           else
             (case handleAsynchronousFilterMethods env st1 request of
                (Some out, st2) \<Rightarrow> (if trace st2 = trace st1 then In_executor else On_answer)
              | (None, st2) \<Rightarrow>
                  (case handleAsynchronousMethods_begin env st2 request of
                     (t, st3) \<Rightarrow> (if trace st3 = trace st2 then In_handler else On_answer)))))"

text \<open>
  The promise of a batch element: settled by the executor, settled by a handler
  before any answer, waiting for an answer with the outcome it will then have (no
  handler but \<^verbatim>\<open>_eth_requestAccounts\<close> reads or writes the provider after its
  \<^verbatim>\<open>await\<close>), waiting for the relay's accounts, or settled after the answer.
\<close>

datatype element =
    By_executor "exn + jsval"
  | By_handler "exn + jsval"
  | Awaiting "exn + jsval"
  | Awaiting_accounts
  | Answered "exn + jsval"

definition begin_element :: "env \<Rightarrow> provider \<Rightarrow> JSONRPCRequest \<Rightarrow> element \<times> provider" where
  "begin_element env st request =
     (case sendRequestAsync_begin env st request of
        (Linking, st1) \<Rightarrow> (Awaiting_accounts, st1)
      | (Settled out, st1) \<Rightarrow>
          ((case settles env st request of
              In_executor \<Rightarrow> By_executor out
            | In_handler \<Rightarrow> By_handler out
            | On_answer \<Rightarrow> Awaiting out),
           st1))"

text \<open>
  \<^verbatim>\<open>requests.map(r => this._sendRequestAsync(r))\<close>: every executor runs when its
  promise is created, in the order of the array.
\<close>

fun begin_all :: "env \<Rightarrow> provider \<Rightarrow> JSONRPCRequest list \<Rightarrow> element list \<times> provider" where
  "begin_all env st [] = ([], st)"
| "begin_all env st (r # rs) =
     (case begin_element env st r of
        (el, st1) \<Rightarrow> (case begin_all env st1 rs of (es, st2) \<Rightarrow> (el # es, st2)))"

text \<open>
  The collaborators then answer the waiting elements, each answer in a turn of the
  event loop of its own, after the microtasks of the calls have run, in an order
  given by the indices of the elements; an element that is not listed is never
  answered.
\<close>

fun resume_all ::
  "env \<Rightarrow> provider \<Rightarrow> JSONRPCRequest list \<Rightarrow> element list \<Rightarrow> nat list \<Rightarrow>
   element list \<times> provider" where
  "resume_all env st requests es [] = (es, st)"
| "resume_all env st requests es (i # is) =
     (if i < length es \<and> i < length requests then
        (case es ! i of
           Awaiting_accounts \<Rightarrow>
             (case sendRequestAsync_resume env st (requests ! i) of
                (out, st1) \<Rightarrow> resume_all env st1 requests (es[i := Answered out]) is)
         | Awaiting out \<Rightarrow> resume_all env st requests (es[i := Answered out]) is
         | _ \<Rightarrow> resume_all env st requests es is)
      else resume_all env st requests es is)"

fun rejection :: "element \<Rightarrow> exn option" where
  "rejection (By_executor (Inl e)) = Some e"
| "rejection (By_handler (Inl e)) = Some e"
| "rejection (Answered (Inl e)) = Some e"
| "rejection el = None"

fun fulfilment :: "element \<Rightarrow> jsval option" where
  "fulfilment (By_executor (Inr v)) = Some v"
| "fulfilment (By_handler (Inr v)) = Some v"
| "fulfilment (Answered (Inr v)) = Some v"
| "fulfilment el = None"

text \<open>
  The rejections of the elements in the order in which \<^verbatim>\<open>Promise.all\<close> sees them:
  those of the executors, which are there when \<^verbatim>\<open>Promise.all\<close> is called, in the order
  of the array; then those of the handlers that failed before any answer, in the
  order of the array; then those that follow an answer, in the order of the answers.
\<close>

definition rejections :: "element list \<Rightarrow> nat list \<Rightarrow> exn list" where
  "rejections es order =
     concat (map (\<lambda>i. case es ! i of By_executor (Inl e) \<Rightarrow> [e] | _ \<Rightarrow> []) [0..<length es])
     @ concat (map (\<lambda>i. case es ! i of By_handler (Inl e) \<Rightarrow> [e] | _ \<Rightarrow> []) [0..<length es])
     @ concat (map (\<lambda>i. if i < length es then (case es ! i of Answered (Inl e) \<Rightarrow> [e] | _ \<Rightarrow> [])
                          else []) order)"

fun fulfilled :: "element list \<Rightarrow> jsval list option" where
  "fulfilled [] = Some []"
| "fulfilled (el # es) =
     (case fulfilment el of
        None \<Rightarrow> None
      | Some v \<Rightarrow> (case fulfilled es of None \<Rightarrow> None | Some vs \<Rightarrow> Some (v # vs)))"

text \<open>
  \<^verbatim>\<open>Promise.all\<close>: rejected with the first rejection it sees, fulfilled with all
  values in the order of the array when every element is fulfilled, and pending
  (\<^verbatim>\<open>None\<close>) otherwise.
\<close>

definition Promise_all :: "element list \<Rightarrow> nat list \<Rightarrow> (exn + jsval list) option" where
  "Promise_all es order =
     (case rejections es order of
        e # rest \<Rightarrow> Some (Inl e)
      | [] \<Rightarrow> (case fulfilled es of None \<Rightarrow> None | Some vs \<Rightarrow> Some (Inr vs)))"

text \<open>\<^verbatim>\<open>_sendMultipleRequestsAsync\<close>, with the promises of the elements at the end.\<close>

definition sendMultipleRequestsAsync ::
  "env \<Rightarrow> provider \<Rightarrow> nat list \<Rightarrow> JSONRPCRequest list \<Rightarrow>
   ((exn + jsval list) option \<times> element list) \<times> provider" where
  "sendMultipleRequestsAsync env st order requests =
     (case begin_all env st requests of
        (es, st1) \<Rightarrow>
          (case resume_all env st1 requests es order of
             (es', st2) \<Rightarrow> ((Promise_all es' order, es'), st2)))"

text \<open>
  A callback \<^verbatim>\<open>(err, result) => ...\<close> returns or throws; \<^verbatim>\<open>None\<close> is the
  \<^verbatim>\<open>null\<close> error. \<^verbatim>\<open>promise.then(v => cb(null, v)).catch(err => cb(err, null))\<close>
  gives the list of the calls made on the callback: the \<^verbatim>\<open>catch\<close> also receives what
  the callback throws in the \<^verbatim>\<open>then\<close>.
\<close>

type_synonym callback = "exn option \<Rightarrow> jsval \<Rightarrow> exn + unit"

definition then_catch :: "callback \<Rightarrow> exn + jsval \<Rightarrow> (exn option \<times> jsval) list" where
  "then_catch cb out =
     (case out of
        Inr v \<Rightarrow> (case cb None v of Inr u \<Rightarrow> [(None, v)] | Inl e \<Rightarrow> [(None, v), (Some e, JNull)])
      | Inl err \<Rightarrow> [(Some err, JNull)])"

datatype request_arg = Single JSONRPCRequest | Batch "JSONRPCRequest list"

text \<open>
  \<^verbatim>\<open>sendAsync(request, callback)\<close>: the calls made on the callback, or the error
  thrown when there is no callback. A pending promise calls nothing.
\<close>

definition sendAsync ::
  "env \<Rightarrow> provider \<Rightarrow> nat list \<Rightarrow> request_arg \<Rightarrow> callback option \<Rightarrow>
   (exn + (exn option \<times> jsval) list) \<times> provider" where
  "sendAsync env st order request callback =
     (case callback of
        None \<Rightarrow> (Inl (Error ''callback is required''), st)
      | Some cb \<Rightarrow>
          (case request of
             Batch requests \<Rightarrow>
               (case sendMultipleRequestsAsync env st order requests of
                  ((None, es), st1) \<Rightarrow> (Inr [], st1)
                | ((Some (Inl err), es), st1) \<Rightarrow> (Inr (then_catch cb (Inl err)), st1)
                | ((Some (Inr responses), es), st1) \<Rightarrow> (Inr (then_catch cb (Inr (JArr responses))), st1))
           | Single r \<Rightarrow>
               (case sendRequestAsync env st r of (out, st1) \<Rightarrow> (Inr (then_catch cb out), st1))))"

text \<open>
  What an element carries once it is settled, and what it means for an element to answer a
  request: a response it carries has the id of the request.
\<close>

fun carried :: "element \<Rightarrow> (exn + jsval) option" where
  "carried (By_executor out) = Some out"
| "carried (By_handler out) = Some out"
| "carried (Awaiting out) = Some out"
| "carried (Answered out) = Some out"
| "carried Awaiting_accounts = None"

definition answers :: "JSONRPCRequest \<Rightarrow> element \<Rightarrow> bool" where
  "answers request el \<longleftrightarrow>
     (\<forall>res. carried el = Some (Inr res) \<longrightarrow> get_prop res ''id'' = Inr (req_id request))"

section \<open>Sample requests and remote nodes\<close>

text \<open>The transaction that \<^verbatim>\<open>{to: bob, value: "0x5"}\<close> normalizes to for alice on chain 1.\<close>

definition tx5 :: EthereumTransactionParams where
  "tx5 = \<lparr>fromAddress = alice, toAddress = Some bob, weiValue = 5, data = [], nonce = None,
          gasPriceInWei = None, gasLimit = None, chainId = 1\<rparr>"

text \<open>Remote nodes that answer with an error whose message is empty, and with \<^verbatim>\<open>"error": null\<close>.\<close>

definition env_remote_error :: env where
  "env_remote_error = env0\<lparr>fetch_json := (\<lambda>url request.
     Inr (JObj [(''jsonrpc'', JStr ''2.0''), (''id'', JNum 1),
                (''error'', JObj [(''code'', JNum (- 32000)), (''message'', JStr [])])]))\<rparr>"

definition env_remote_null_error :: env where
  "env_remote_null_error = env0\<lparr>fetch_json := (\<lambda>url request.
     Inr (JObj [(''jsonrpc'', JStr ''2.0''), (''id'', JNum 1), (''result'', JStr ''0x10''),
                (''error'', JNull)]))\<rparr>"

definition env_remote_null :: env where
  "env_remote_null = env0\<lparr>fetch_json := (\<lambda>url request. Inr JNull)\<rparr>"

definition blockNumber :: JSONRPCRequest where
  "blockNumber = \<lparr>req_id = JNum 11, req_method = ''eth_blockNumber'', req_params = JArr []\<rparr>"

definition sign_request :: JSONRPCRequest where
  "sign_request = \<lparr>req_id = JNum 42, req_method = ''eth_sign'',
                   req_params = JArr [JStr alice, JStr ''0x1234'']\<rparr>"

definition block_filter_request :: JSONRPCRequest where
  "block_filter_request = \<lparr>req_id = JNum 43, req_method = ''eth_newBlockFilter'', req_params = JUndefined\<rparr>"

text \<open>Requests for the examples.\<close>

definition accounts_request :: JSONRPCRequest where
  "accounts_request = \<lparr>req_id = JNum 1, req_method = ''eth_accounts'', req_params = JArr []\<rparr>"

definition version_request :: JSONRPCRequest where
  "version_request = \<lparr>req_id = JNum 2, req_method = ''net_version'', req_params = JArr []\<rparr>"

definition bad_uninstall_request :: JSONRPCRequest where
  "bad_uninstall_request = \<lparr>req_id = JNum 2, req_method = ''eth_uninstallFilter'', req_params = JArr []\<rparr>"

definition linking_request :: JSONRPCRequest where
  "linking_request = \<lparr>req_id = JNum 3, req_method = ''eth_requestAccounts'', req_params = JArr []\<rparr>"

text \<open>A callback that returns.\<close>

definition cb_ok :: callback where
  "cb_ok err result = Inr ()"

text \<open>A request to sign a transaction, and the provider while the user is asked for accounts
  and after two signing requests were sent to the relay.\<close>

definition sign_tx_request :: JSONRPCRequest where
  "sign_tx_request = \<lparr>req_id = JNum 44, req_method = ''eth_signTransaction'',
     req_params = JArr [JObj [(''to'', JStr bob), (''value'', JStr ''0x5'')]]\<rparr>"

definition linking :: provider where
  "linking = \<lparr>addresses = [], walletLinkWindow = Some \<lparr>opener = True\<rparr>,
              trace = [OpenWalletLinkWindow, RequestEthereumAccounts ''DApp'']\<rparr>"

definition signing :: provider where
  "signing = \<lparr>addresses = [alice], walletLinkWindow = None,
              trace = [SignEthereumMessage [0x12, 0x34] alice False, SignEthereumTransaction tx5]\<rparr>"

section \<open>Properties of the synchronous surface\<close>

lemma selectedAddress_Nil: "addresses st = [] \<Longrightarrow> selectedAddress st = None"
  by (simp add: selectedAddress_def)

lemma eth_coinbase_defined: "eth_coinbase st \<noteq> JUndefined"
  by (auto simp: eth_coinbase_def split: option.splits)

text \<open>
  C10. With no authorized address, \<^verbatim>\<open>eth_coinbase\<close> through the synchronous
  single-call surface succeeds with the result \<^verbatim>\<open>null\<close>: the handler returns
  \<^verbatim>\<open>null\<close>, not \<^verbatim>\<open>undefined\<close>, and only \<^verbatim>\<open>undefined\<close> makes \<^verbatim>\<open>_sendRequest\<close> throw.
\<close>

theorem coinbase_sync_null_when_unauthorized:
  "addresses st = [] \<Longrightarrow> req_method request = ''eth_coinbase'' \<Longrightarrow>
   sendRequest env st request = (Inr (response (req_id request) JNull), st)"
  by (simp add: sendRequest_def handleSynchronousMethods_def eth_coinbase_def
      selectedAddress_Nil)

theorem coinbase_sync_null_when_unauthorized_witness:
  "sendRequest env0 unauthorized
     \<lparr>req_id = JNum 7, req_method = ''eth_coinbase'', req_params = JArr []\<rparr>
   = (Inr (JObj [(''jsonrpc'', JStr ''2.0''), (''id'', JNum 7), (''result'', JNull)]),
      unauthorized)"
  using coinbase_sync_null_when_unauthorized
    [of unauthorized
        "\<lparr>req_id = JNum 7, req_method = ''eth_coinbase'', req_params = JArr []\<rparr>" env0]
  by (simp add: response_def unauthorized_def)

text \<open>
  C1 (as amended). No method of the relay table or of the filter table is in the
  synchronous table. A method outside the synchronous table, called through
  \<^verbatim>\<open>_sendRequest\<close>, throws the error whose message names the method twice and
  asks for a callback, and nothing else happens. \<^verbatim>\<open>eth_accounts\<close>,
  \<^verbatim>\<open>eth_coinbase\<close> and \<^verbatim>\<open>net_version\<close> return a response with the request's id
  and the method's result. \<^verbatim>\<open>eth_uninstallFilter\<close> returns a response with the
  filter polyfill's boolean when its first parameter passes \<^verbatim>\<open>ensureHexString\<close>,
  and throws the validation error otherwise.
\<close>

theorem sync_surface_dispatch:
  "relay_table \<inter> synchronous_table = {} \<and> filter_table \<inter> synchronous_table = {}
   \<and> (req_method request \<notin> synchronous_table \<longrightarrow>
      sendRequest env st request =
        (Inl (Error (''WalletLink does not support calling '' @ req_method request @
                '' synchronously without a callback. Please provide a callback parameter to call '' @
                req_method request @ '' asynchronously.'')), st))
   \<and> (req_method request = ''eth_accounts'' \<longrightarrow>
        sendRequest env st request = (Inr (response (req_id request) (eth_accounts st)), st))
   \<and> (req_method request = ''eth_coinbase'' \<longrightarrow>
        sendRequest env st request = (Inr (response (req_id request) (eth_coinbase st)), st))
   \<and> (req_method request = ''net_version'' \<longrightarrow>
        sendRequest env st request = (Inr (response (req_id request) (net_version env)), st))
   \<and> (req_method request = ''eth_uninstallFilter'' \<longrightarrow>
        (\<forall>filterId. ensureHexString env (js_index (params_of request) 0) = Inr filterId \<longrightarrow>
           sendRequest env st request =
             (Inr (response (req_id request) (JBool (uninstallFilter env filterId))),
              log (UninstallFilter filterId) st))
        \<and> (\<forall>e. ensureHexString env (js_index (params_of request) 0) = Inl e \<longrightarrow>
           sendRequest env st request = (Inl e, st)))"
proof -
  have "relay_table \<inter> synchronous_table = {}" "filter_table \<inter> synchronous_table = {}"
    by (simp_all add: relay_table_def filter_table_def synchronous_table_def)
  then show ?thesis
    by (auto simp: sendRequest_def handleSynchronousMethods_def synchronous_table_def
        synchronous_unsupported_def eth_accounts_def net_version_def eth_uninstallFilter_def
        eth_coinbase_defined)
qed

theorem sync_surface_dispatch_witness:
  "sendRequest env0 authorized
     \<lparr>req_id = JNum 3, req_method = ''eth_sign'', req_params = JArr []\<rparr>
   = (Inl (Error (''WalletLink does not support calling eth_sign synchronously without a callback. '' @
                  ''Please provide a callback parameter to call eth_sign asynchronously.'')),
      authorized)
   \<and> sendRequest env0 authorized
       \<lparr>req_id = JNum 4, req_method = ''eth_accounts'', req_params = JArr []\<rparr>
     = (Inr (response (JNum 4) (JArr [JStr alice])), authorized)
   \<and> sendRequest env0 authorized
       \<lparr>req_id = JNum 5, req_method = ''eth_coinbase'', req_params = JUndefined\<rparr>
     = (Inr (response (JNum 5) (JStr alice)), authorized)
   \<and> sendRequest env0 authorized
       \<lparr>req_id = JNum 6, req_method = ''net_version'', req_params = JArr []\<rparr>
     = (Inr (response (JNum 6) (JStr ''1'')), authorized)
   \<and> sendRequest env0 authorized
       \<lparr>req_id = JNum 8, req_method = ''eth_uninstallFilter'', req_params = JArr [JStr ''0xA1'']\<rparr>
     = (Inr (response (JNum 8) (JBool True)), log (UninstallFilter ''a1'') authorized)
   \<and> sendRequest env0 authorized
       \<lparr>req_id = JNum 9, req_method = ''eth_uninstallFilter'', req_params = JArr [JStr ''xyz'']\<rparr>
     = (Inl (Error ''Not a hexadecimal string''), authorized)"
proof -
  have nohex: "ensureHexString env0 (js_index (params_of
      \<lparr>req_id = JNum 9, req_method = ''eth_uninstallFilter'', req_params = JArr [JStr ''xyz'']\<rparr>) 0)
      = Inl (Error ''Not a hexadecimal string'')"
    by (simp add: env0_def params_of_def sample_ensureHexString.simps hex_digit_def to_lower_def)
  have hex: "ensureHexString env0 (js_index (params_of
      \<lparr>req_id = JNum 8, req_method = ''eth_uninstallFilter'', req_params = JArr [JStr ''0xA1'']\<rparr>) 0)
      = Inr ''a1''"
    by (simp add: env0_def params_of_def sample_ensureHexString.simps hex_digit_def to_lower_def)
  show ?thesis
    using sync_surface_dispatch
        [of "\<lparr>req_id = JNum 3, req_method = ''eth_sign'', req_params = JArr []\<rparr>" env0 authorized]
      sync_surface_dispatch
        [of "\<lparr>req_id = JNum 4, req_method = ''eth_accounts'', req_params = JArr []\<rparr>" env0 authorized]
      sync_surface_dispatch
        [of "\<lparr>req_id = JNum 5, req_method = ''eth_coinbase'', req_params = JUndefined\<rparr>" env0 authorized]
      sync_surface_dispatch
        [of "\<lparr>req_id = JNum 6, req_method = ''net_version'', req_params = JArr []\<rparr>" env0 authorized]
      sync_surface_dispatch
        [of "\<lparr>req_id = JNum 8, req_method = ''eth_uninstallFilter'', req_params = JArr [JStr ''0xA1'']\<rparr>"
            env0 authorized]
      sync_surface_dispatch
        [of "\<lparr>req_id = JNum 9, req_method = ''eth_uninstallFilter'', req_params = JArr [JStr ''xyz'']\<rparr>"
            env0 authorized] hex nohex
    by (simp add: synchronous_table_def eth_accounts_def eth_coinbase_def selectedAddress_def
        net_version_def number_toString_def show_int_def show_nat.simps authorized_def env0_def
        alice_def)
qed

text \<open>
  C1 as stated fails for \<^verbatim>\<open>eth_uninstallFilter\<close>: the method is in the synchronous
  table, and called with no parameter it neither returns a response nor throws the
  synchronous-unsupported error; the error of the filter id validation escapes.
\<close>

theorem sync_table_method_without_response:
  "sendRequest env0 unauthorized
     \<lparr>req_id = JNum 1, req_method = ''eth_uninstallFilter'', req_params = JArr []\<rparr>
   = (Inl (Error ''Not a hexadecimal string''), unauthorized)"
  by (simp add: sendRequest_def handleSynchronousMethods_def eth_uninstallFilter_def
      params_of_def env0_def sample_ensureHexString.simps)

text \<open>A chain id beyond the safe integers is printed by the engine: the sample engine gives
  the exponent form at \<open>10 ^ 21\<close>.\<close>

lemma net_version_large_sample: "net_version (env0\<lparr>cfg_chainId := 10 ^ 21\<rparr>) = JStr ''1e+21''"
  by (simp add: net_version_def number_toString_def env0_def sample_engine_toString_def
      sample_digits_def show_nat.simps Let_def)

section \<open>Properties of the address store\<close>

lemma map_throwing_valid:
  "\<forall>x \<in> set xs. \<not> isl (f x) \<Longrightarrow> map_throwing f xs = Inr (map (\<lambda>x. projr (f x)) xs)"
  by (induction xs) (auto split: sum.splits)

lemma isl_map_throwing:
  "isl (map_throwing f xs) \<longleftrightarrow> (\<exists>x \<in> set xs. isl (f x))"
  by (induction xs) (auto split: sum.splits)

text \<open>
  C5. When every entry of the input passes \<^verbatim>\<open>ensureAddressString\<close>, the address
  list after \<^verbatim>\<open>_setAddresses\<close>, which \<^verbatim>\<open>_eth_accounts\<close> returns, is the list of
  the normalized entries in the order of the input (and without \<^verbatim>\<open>persist\<close> the
  call returns). When some entry fails validation, wherever it is, the call throws and
  the provider is as it was before: same address list, no storage write, no event.
\<close>

theorem setAddresses_roundtrip_atomic:
  "((\<forall>x \<in> set xs. \<not> isl (ensureAddressString env x)) \<longrightarrow>
      addresses (snd (setAddresses env st (JArr xs) persist))
        = map (\<lambda>x. projr (ensureAddressString env x)) xs
      \<and> eth_accounts (snd (setAddresses env st (JArr xs) persist))
        = JArr (map (\<lambda>x. JStr (projr (ensureAddressString env x))) xs)
      \<and> (\<not> persist \<longrightarrow> fst (setAddresses env st (JArr xs) persist) = Inr ()))
   \<and> ((\<exists>x \<in> set xs. isl (ensureAddressString env x)) \<longrightarrow>
        isl (fst (setAddresses env st (JArr xs) persist))
        \<and> snd (setAddresses env st (JArr xs) persist) = st)"
proof (intro conjI impI)
  assume valid: "\<forall>x \<in> set xs. \<not> isl (ensureAddressString env x)"
  have m: "map_throwing (ensureAddressString env) xs
             = Inr (map (\<lambda>x. projr (ensureAddressString env x)) xs)"
    using valid by (rule map_throwing_valid)
  show "addresses (snd (setAddresses env st (JArr xs) persist))
          = map (\<lambda>x. projr (ensureAddressString env x)) xs"
    by (simp add: setAddresses_def m log_def Let_def split: sum.splits)
  then show "eth_accounts (snd (setAddresses env st (JArr xs) persist))
          = JArr (map (\<lambda>x. JStr (projr (ensureAddressString env x))) xs)"
    by (simp add: eth_accounts_def comp_def)
  show "fst (setAddresses env st (JArr xs) persist) = Inr ()" if "\<not> persist"
    using that by (simp add: setAddresses_def m Let_def)
next
  assume invalid: "\<exists>x \<in> set xs. isl (ensureAddressString env x)"
  then have "isl (map_throwing (ensureAddressString env) xs)"
    by (simp add: isl_map_throwing)
  then obtain e where m: "map_throwing (ensureAddressString env) xs = Inl e"
    by (cases "map_throwing (ensureAddressString env) xs") auto
  show "isl (fst (setAddresses env st (JArr xs) persist))"
    by (simp add: setAddresses_def m)
  show "snd (setAddresses env st (JArr xs) persist) = st"
    by (simp add: setAddresses_def m)
qed

lemma alice_ok: "sample_ensureAddressString (JStr alice) = Inr alice"
  by (simp add: sample_ensureAddressString.simps alice_def hex_digit_def to_lower_def)

lemma bob_ok: "sample_ensureAddressString (JStr bob) = Inr bob"
  by (simp add: sample_ensureAddressString.simps bob_def hex_digit_def to_lower_def)

lemma upper_ok: "sample_ensureAddressString (JStr ''0x00000000000000000000000000000000000A11CE'') = Inr alice"
  by (simp add: sample_ensureAddressString.simps alice_def hex_digit_def to_lower_def)

lemma short_refused: "isl (sample_ensureAddressString (JStr ''0xb0b''))"
  by (simp add: sample_ensureAddressString.simps)

theorem setAddresses_roundtrip_atomic_witness:
  "eth_accounts (snd (setAddresses env0 unauthorized
      (JArr [JStr ''0x00000000000000000000000000000000000A11CE'', JStr bob]) False))
     = JArr [JStr alice, JStr bob]
   \<and> fst (setAddresses env0 unauthorized
      (JArr [JStr ''0x00000000000000000000000000000000000A11CE'', JStr bob]) False) = Inr ()
   \<and> isl (fst (setAddresses env0 authorized (JArr [JStr bob, JStr ''0xb0b'']) True))
   \<and> snd (setAddresses env0 authorized (JArr [JStr bob, JStr ''0xb0b'']) True) = authorized"
proof -
  have valid: "\<forall>x \<in> set [JStr ''0x00000000000000000000000000000000000A11CE'', JStr bob].
      \<not> isl (ensureAddressString env0 x)"
    by (simp add: env0_def upper_ok bob_ok)
  have invalid: "\<exists>x \<in> set [JStr bob, JStr ''0xb0b'']. isl (ensureAddressString env0 x)"
    by (simp add: env0_def short_refused)
  show ?thesis
    using valid invalid
      setAddresses_roundtrip_atomic
        [of "[JStr ''0x00000000000000000000000000000000000A11CE'', JStr bob]" env0 unauthorized False]
      setAddresses_roundtrip_atomic [of "[JStr bob, JStr ''0xb0b'']" env0 authorized True]
    by (simp add: env0_def upper_ok bob_ok)
qed

text \<open>
  When the storage write returns, \<^verbatim>\<open>_setAddresses\<close> with \<^verbatim>\<open>persist = true\<close>
  completes: the address list is replaced and \<^verbatim>\<open>accountsChanged\<close> is emitted after
  the write.
\<close>

lemma setAddresses_persist_returns:
  "map_throwing (ensureAddressString env) xs = Inr as \<Longrightarrow>
   storage_setItem env (localStorageAddressesKey env) as = Inr () \<Longrightarrow>
   setAddresses env st (JArr xs) True =
     (Inr (), st\<lparr>addresses := as,
                 trace := trace st @ [StorageSetItem (localStorageAddressesKey env) as,
                                      Emit ''accountsChanged'' as]\<rparr>)"
  by (simp add: setAddresses_def log_def)

text \<open>
  C6. The code does not do what the claim says. With a valid list, \<^verbatim>\<open>persist = true\<close>
  and a storage that refuses the write, \<^verbatim>\<open>_setAddresses\<close> does not complete: the
  error of the write is thrown to the caller, the address list has already been
  replaced, and the trace holds the write but no \<^verbatim>\<open>accountsChanged\<close> event. The read
  of the same key in the constructor is inside \<^verbatim>\<open>try { } catch { }\<close>; the write is
  not.
\<close>

theorem storage_failure_not_swallowed:
  "setAddresses env_storage_full unauthorized (JArr [JStr alice]) True =
     (Inl (Error ''QuotaExceededError''),
      \<lparr>addresses = [alice], walletLinkWindow = None,
       trace = [StorageSetItem ''WalletLinkProvider:0123456789:addresses'' [alice]]\<rparr>)"
  by (simp add: setAddresses_def env_storage_full_def env0_def unauthorized_def alice_ok
      localStorageAddressesKey_def log_def)

section \<open>Properties of transaction normalization\<close>

lemma selectedAddress_Some:
  "selectedAddress st = Some a \<Longrightarrow> a \<in> set (addresses st) \<and> truthy (JStr a)"
  by (auto simp: selectedAddress_def split: list.splits if_splits)

text \<open>
  C4. With a selected address \<^verbatim>\<open>a\<close> (which is then authorized), an accepted
  \<^verbatim>\<open>to\<close> and \<^verbatim>\<open>ensureBN("0x5") = 5\<close>, the input \<^verbatim>\<open>{to, value: "0x5"}\<close> gives
  the transaction from \<^verbatim>\<open>a\<close> with value 5, empty data, no nonce, no gas fields and
  the provider's chain id. An input without usable \<^verbatim>\<open>from\<close>, when there is no
  selected address, throws "Ethereum address is unavailable" (MissingField). An input
  whose \<^verbatim>\<open>from\<close> validates to an address outside the authorized list throws
  "Unknown Ethereum address" (UnauthorizedAddress).
\<close>

theorem prepareTransactionParams_cases:
  "(selectedAddress st = Some a \<longrightarrow> truthy t \<longrightarrow> ensureAddressString env t = Inr t' \<longrightarrow>
      ensureBN env (JStr ''0x5'') = Inr 5 \<longrightarrow>
      prepareTransactionParams env st (JObj [(''to'', t), (''value'', JStr ''0x5'')]) =
        Inr \<lparr>fromAddress = a, toAddress = Some t', weiValue = 5, data = [], nonce = None,
             gasPriceInWei = None, gasLimit = None, chainId = cfg_chainId env\<rparr>)
   \<and> (\<forall>tx_from. get_prop tx ''from'' = Inr tx_from \<longrightarrow> \<not> truthy tx_from \<longrightarrow>
        selectedAddress st = None \<longrightarrow>
        prepareTransactionParams env st tx = Inl (Error ''Ethereum address is unavailable''))
   \<and> (\<forall>tx_from b. get_prop tx ''from'' = Inr tx_from \<longrightarrow> truthy tx_from \<longrightarrow>
        ensureAddressString env tx_from = Inr b \<longrightarrow> b \<noteq> [] \<longrightarrow> b \<notin> set (addresses st) \<longrightarrow>
        prepareTransactionParams env st tx = Inl (Error ''Unknown Ethereum address''))"
proof (intro conjI impI allI)
  assume sel: "selectedAddress st = Some a" and t: "truthy t"
    and to: "ensureAddressString env t = Inr t'" and bn: "ensureBN env (JStr ''0x5'') = Inr 5"
  from selectedAddress_Some [OF sel] have a: "a \<in> set (addresses st)" "a \<noteq> []" by auto
  show "prepareTransactionParams env st (JObj [(''to'', t), (''value'', JStr ''0x5'')]) =
        Inr \<lparr>fromAddress = a, toAddress = Some t', weiValue = 5, data = [], nonce = None,
             gasPriceInWei = None, gasLimit = None, chainId = cfg_chainId env\<rparr>"
    by (simp add: prepareTransactionParams_def and_then_def optional_def sel a t to bn)
next
  fix tx_from
  assume "get_prop tx ''from'' = Inr tx_from" "\<not> truthy tx_from" "selectedAddress st = None"
  then show "prepareTransactionParams env st tx = Inl (Error ''Ethereum address is unavailable'')"
    by (simp add: prepareTransactionParams_def and_then_def)
next
  fix tx_from b
  assume "get_prop tx ''from'' = Inr tx_from" "truthy tx_from"
    "ensureAddressString env tx_from = Inr b" "b \<noteq> []" "b \<notin> set (addresses st)"
  then show "prepareTransactionParams env st tx = Inl (Error ''Unknown Ethereum address'')"
    by (simp add: prepareTransactionParams_def and_then_def)
qed

theorem prepareTransactionParams_cases_witness:
  "prepareTransactionParams env0 authorized (JObj [(''to'', JStr bob), (''value'', JStr ''0x5'')]) =
     Inr \<lparr>fromAddress = alice, toAddress = Some bob, weiValue = 5, data = [], nonce = None,
          gasPriceInWei = None, gasLimit = None, chainId = 1\<rparr>
   \<and> prepareTransactionParams env0 unauthorized (JObj [(''to'', JStr bob)]) =
     Inl (Error ''Ethereum address is unavailable'')
   \<and> prepareTransactionParams env0 authorized (JObj [(''from'', JStr bob), (''to'', JStr alice)]) =
     Inl (Error ''Unknown Ethereum address'')"
proof -
  have sel: "selectedAddress authorized = Some alice"
    by (simp add: selectedAddress_def authorized_def alice_def)
  have nosel: "selectedAddress unauthorized = None"
    by (simp add: selectedAddress_def unauthorized_def)
  have bn: "ensureBN env0 (JStr ''0x5'') = Inr 5"
    by (simp add: env0_def sample_ensureBN.simps hex_digit_def to_lower_def)
  have to: "ensureAddressString env0 (JStr bob) = Inr bob"
    by (simp add: env0_def bob_ok)
  have tb: "truthy (JStr bob)" and bne: "bob \<noteq> []" and bnotin: "bob \<notin> set (addresses authorized)"
    by (simp_all add: bob_def alice_def authorized_def)
  show ?thesis
    using prepareTransactionParams_cases
        [of authorized alice "JStr bob" env0 bob "JObj [(''to'', JStr bob)]"]
      prepareTransactionParams_cases
        [of unauthorized alice "JStr bob" env0 bob "JObj [(''to'', JStr bob)]"]
      prepareTransactionParams_cases
        [of authorized alice "JStr bob" env0 bob "JObj [(''from'', JStr bob), (''to'', JStr alice)]"]
      sel nosel bn to tb bne bnotin
    by (simp add: env0_def)
qed

section \<open>Properties of the relay-backed methods\<close>

lemma match_literal_prefix:
  "match_literal p s \<longleftrightarrow> prefix (map canonicalize p) (map canonicalize s)"
  by (induction p s rule: match_literal.induct) auto

lemma match_denied_iff: "match_denied m \<longleftrightarrow> spec_contains_denied_or_rejected m"
proof (induction m)
  case Nil
  show ?case by (simp add: spec_contains_denied_or_rejected_def)
next
  case (Cons c cs)
  have d: "map canonicalize ''denied'' = ''DENIED''"
    and r: "map canonicalize ''rejected'' = ''REJECTED''"
    by (simp_all add: canonicalize_def)
  have "match_denied (c # cs) \<longleftrightarrow>
      prefix ''DENIED'' (map canonicalize (c # cs)) \<or> prefix ''REJECTED'' (map canonicalize (c # cs))
      \<or> match_denied cs"
    unfolding match_denied.simps match_literal_prefix d r ..
  also have "\<dots> \<longleftrightarrow> spec_contains_denied_or_rejected (c # cs)"
    unfolding Cons.IH spec_contains_denied_or_rejected_def
    by (auto simp: sublist_Cons_right)
  finally show ?case .
qed

lemma rethrow_denied_message:
  "err_message err = Inr (JStr m) \<Longrightarrow>
   rethrow_denied denied err = (if spec_contains_denied_or_rejected m then denied else err)"
  by (simp add: rethrow_denied_def match_denied_iff)

lemma try_relay_rejected: "try_relay denied (Inl err) = Inl (rethrow_denied denied err)"
  by (simp add: try_relay_def and_then_def)

lemma requireAuthorization_ok: "addresses st \<noteq> [] \<Longrightarrow> requireAuthorization st = Inr ()"
  by (simp add: requireAuthorization_def)

text \<open>
  C3. Let the relay reject with an error whose message is the string \<^verbatim>\<open>m\<close>, in a
  call that reaches the relay (no cached address for the account request; an
  authorized provider and valid parameters for the four signing methods). If
  \<^verbatim>\<open>m\<close> contains "denied" or "rejected" in any letter case, the account request
  fails with the \<^verbatim>\<open>ProviderError\<close> of code \<^verbatim>\<open>USER_DENIED_REQUEST_ACCOUNTS\<close>, and
  \<^verbatim>\<open>eth_sign\<close>, \<^verbatim>\<open>personal_sign\<close>, \<^verbatim>\<open>eth_signTransaction\<close> and
  \<^verbatim>\<open>eth_sendTransaction\<close> fail with the \<^verbatim>\<open>ProviderError\<close> of code
  \<^verbatim>\<open>USER_DENIED_REQUEST_SIGNATURE\<close>; otherwise the method fails with the relay's
  error itself.
\<close>

theorem relay_denial_remapped:
  assumes msg: "err_message err = Inr (JStr m)"
  shows
  "(addresses st = [] \<longrightarrow> requestEthereumAccounts env (cfg_appName env) = Inl err \<longrightarrow>
      fst (eth_requestAccounts env st) =
        Inl (if spec_contains_denied_or_rejected m
             then ProviderError (JStr ''User denied account authorization'')
                    USER_DENIED_REQUEST_ACCOUNTS JUndefined
             else err))
   \<and> (addresses st \<noteq> [] \<longrightarrow> ensureBuffer env (js_index params 1) = Inr message \<longrightarrow>
        ensureAddressString env (js_index params 0) = Inr address \<longrightarrow>
        signEthereumMessage env message address False = Inl err \<longrightarrow>
        fst (eth_sign env st params) =
          Inl (if spec_contains_denied_or_rejected m
               then ProviderError (JStr ''User denied message signature'')
                      USER_DENIED_REQUEST_SIGNATURE JUndefined
               else err))
   \<and> (addresses st \<noteq> [] \<longrightarrow> ensureBuffer env (js_index params 0) = Inr message \<longrightarrow>
        ensureAddressString env (js_index params 1) = Inr address \<longrightarrow>
        signEthereumMessage env message address True = Inl err \<longrightarrow>
        fst (personal_sign env st params) =
          Inl (if spec_contains_denied_or_rejected m
               then ProviderError (JStr ''User denied message signature'')
                      USER_DENIED_REQUEST_SIGNATURE JUndefined
               else err))
   \<and> (addresses st \<noteq> [] \<longrightarrow> prepareTransactionParams env st (tx_argument params) = Inr tx \<longrightarrow>
        signEthereumTransaction env tx = Inl err \<longrightarrow>
        fst (eth_signTransaction env st params) =
          Inl (if spec_contains_denied_or_rejected m
               then ProviderError (JStr ''User denied transaction signature'')
                      USER_DENIED_REQUEST_SIGNATURE JUndefined
               else err))
   \<and> (addresses st \<noteq> [] \<longrightarrow> prepareTransactionParams env st (tx_argument params) = Inr tx \<longrightarrow>
        signAndSubmitEthereumTransaction env tx = Inl err \<longrightarrow>
        fst (eth_sendTransaction env st params) =
          Inl (if spec_contains_denied_or_rejected m
               then ProviderError (JStr ''User denied transaction signature'')
                      USER_DENIED_REQUEST_SIGNATURE JUndefined
               else err))"
proof (intro conjI impI)
  assume "addresses st = []" "requestEthereumAccounts env (cfg_appName env) = Inl err"
  then show "fst (eth_requestAccounts env st) =
        Inl (if spec_contains_denied_or_rejected m
             then ProviderError (JStr ''User denied account authorization'')
                    USER_DENIED_REQUEST_ACCOUNTS JUndefined
             else err)"
    by (simp add: eth_requestAccounts_def eth_requestAccounts_begin_def
        eth_requestAccounts_resume_def Let_def rethrow_denied_message [OF msg] denied_accounts_def)
next
  assume "addresses st \<noteq> []" "ensureBuffer env (js_index params 1) = Inr message"
    "ensureAddressString env (js_index params 0) = Inr address"
    "signEthereumMessage env message address False = Inl err"
  then show "fst (eth_sign env st params) =
          Inl (if spec_contains_denied_or_rejected m
               then ProviderError (JStr ''User denied message signature'')
                      USER_DENIED_REQUEST_SIGNATURE JUndefined
               else err)"
    by (simp add: eth_sign_def requireAuthorization_ok try_relay_rejected
        rethrow_denied_message [OF msg] denied_message_signature_def)
next
  assume "addresses st \<noteq> []" "ensureBuffer env (js_index params 0) = Inr message"
    "ensureAddressString env (js_index params 1) = Inr address"
    "signEthereumMessage env message address True = Inl err"
  then show "fst (personal_sign env st params) =
          Inl (if spec_contains_denied_or_rejected m
               then ProviderError (JStr ''User denied message signature'')
                      USER_DENIED_REQUEST_SIGNATURE JUndefined
               else err)"
    by (simp add: personal_sign_def requireAuthorization_ok try_relay_rejected
        rethrow_denied_message [OF msg] denied_message_signature_def)
next
  assume "addresses st \<noteq> []" "prepareTransactionParams env st (tx_argument params) = Inr tx"
    "signEthereumTransaction env tx = Inl err"
  then show "fst (eth_signTransaction env st params) =
          Inl (if spec_contains_denied_or_rejected m
               then ProviderError (JStr ''User denied transaction signature'')
                      USER_DENIED_REQUEST_SIGNATURE JUndefined
               else err)"
    by (simp add: eth_signTransaction_def requireAuthorization_ok try_relay_rejected
        rethrow_denied_message [OF msg] denied_transaction_signature_def)
next
  assume "addresses st \<noteq> []" "prepareTransactionParams env st (tx_argument params) = Inr tx"
    "signAndSubmitEthereumTransaction env tx = Inl err"
  then show "fst (eth_sendTransaction env st params) =
          Inl (if spec_contains_denied_or_rejected m
               then ProviderError (JStr ''User denied transaction signature'')
                      USER_DENIED_REQUEST_SIGNATURE JUndefined
               else err)"
    by (simp add: eth_sendTransaction_def requireAuthorization_ok try_relay_rejected
        rethrow_denied_message [OF msg] denied_transaction_signature_def)
qed

lemma contains_1: "spec_contains_denied_or_rejected ''User denied account access''"
  by (simp add: spec_contains_denied_or_rejected_def canonicalize_def sublist_Cons_right)

lemma contains_2: "spec_contains_denied_or_rejected ''Request REJECTED by the user''"
  by (simp add: spec_contains_denied_or_rejected_def canonicalize_def sublist_Cons_right)

lemma contains_3: "\<not> spec_contains_denied_or_rejected ''relay timed out''"
  by (simp add: spec_contains_denied_or_rejected_def canonicalize_def sublist_Cons_right)

lemma contains_4: "spec_contains_denied_or_rejected ''user Rejected the transaction''"
  by (simp add: spec_contains_denied_or_rejected_def canonicalize_def sublist_Cons_right)

lemma buffer_1234: "sample_ensureBuffer (JStr ''0x1234'') = Inr [0x12, 0x34]"
  by (simp add: sample_ensureBuffer.simps hex_digit_def to_lower_def)

lemma bn_0x5: "sample_ensureBN (JStr ''0x5'') = Inr 5"
  by (simp add: sample_ensureBN.simps hex_digit_def to_lower_def)

lemma env_refusing_sel:
  "cfg_appName env_refusing = ''DApp''"
  "cfg_chainId env_refusing = 1"
  "ensureAddressString env_refusing = sample_ensureAddressString"
  "ensureBN env_refusing = sample_ensureBN"
  "ensureBuffer env_refusing = sample_ensureBuffer"
  "requestEthereumAccounts env_refusing = (\<lambda>appName. Inl (Error ''User denied account access''))"
  "signEthereumMessage env_refusing =
     (\<lambda>message address addPrefix. Inl (Error ''Request REJECTED by the user''))"
  "signEthereumTransaction env_refusing = (\<lambda>tx. Inl (Error ''relay timed out''))"
  "signAndSubmitEthereumTransaction env_refusing =
     (\<lambda>tx. Inl (Thrown (JObj [(''message'', JStr ''user Rejected the transaction'')])))"
  by (simp_all add: env_refusing_def env0_def)

lemma alice_bob: "alice \<noteq> []" "bob \<noteq> []" "alice \<noteq> bob"
  by (simp_all add: alice_def bob_def)

lemma prepare_tx5:
  "ensureAddressString env = sample_ensureAddressString \<Longrightarrow> ensureBN env = sample_ensureBN \<Longrightarrow>
   cfg_chainId env = 1 \<Longrightarrow>
   prepareTransactionParams env authorized
     (tx_argument (JArr [JObj [(''to'', JStr bob), (''value'', JStr ''0x5'')]])) = Inr tx5"
  by (simp add: prepareTransactionParams_def tx_argument_def and_then_def optional_def
      selectedAddress_def authorized_def bob_ok bn_0x5 tx5_def alice_bob)

theorem relay_denial_remapped_witness:
  "fst (eth_requestAccounts env_refusing unauthorized) =
     Inl (ProviderError (JStr ''User denied account authorization'') USER_DENIED_REQUEST_ACCOUNTS JUndefined)
   \<and> fst (eth_sign env_refusing authorized (JArr [JStr alice, JStr ''0x1234''])) =
     Inl (ProviderError (JStr ''User denied message signature'') USER_DENIED_REQUEST_SIGNATURE JUndefined)
   \<and> fst (personal_sign env_refusing authorized (JArr [JStr ''0x1234'', JStr alice])) =
     Inl (ProviderError (JStr ''User denied message signature'') USER_DENIED_REQUEST_SIGNATURE JUndefined)
   \<and> fst (eth_signTransaction env_refusing authorized
            (JArr [JObj [(''to'', JStr bob), (''value'', JStr ''0x5'')]])) =
     Inl (Error ''relay timed out'')
   \<and> fst (eth_sendTransaction env_refusing authorized
            (JArr [JObj [(''to'', JStr bob), (''value'', JStr ''0x5'')]])) =
     Inl (ProviderError (JStr ''User denied transaction signature'') USER_DENIED_REQUEST_SIGNATURE JUndefined)"
proof -
  have m1: "err_message (Error ''User denied account access'') = Inr (JStr ''User denied account access'')"
    and m2: "err_message (Error ''Request REJECTED by the user'') = Inr (JStr ''Request REJECTED by the user'')"
    and m3: "err_message (Error ''relay timed out'') = Inr (JStr ''relay timed out'')"
    and m4: "err_message (Thrown (JObj [(''message'', JStr ''user Rejected the transaction'')]))
               = Inr (JStr ''user Rejected the transaction'')"
    by simp_all
  have auth: "addresses authorized \<noteq> []" and unauth: "addresses unauthorized = []"
    by (simp_all add: authorized_def unauthorized_def)
  have tx: "prepareTransactionParams env_refusing authorized
      (tx_argument (JArr [JObj [(''to'', JStr bob), (''value'', JStr ''0x5'')]])) = Inr tx5"
    by (rule prepare_tx5) (simp_all add: env_refusing_sel)
  have b1: "ensureBuffer env_refusing (js_index (JArr [JStr alice, JStr ''0x1234'']) 1) = Inr [0x12, 0x34]"
    and a1: "ensureAddressString env_refusing (js_index (JArr [JStr alice, JStr ''0x1234'']) 0) = Inr alice"
    and b2: "ensureBuffer env_refusing (js_index (JArr [JStr ''0x1234'', JStr alice]) 0) = Inr [0x12, 0x34]"
    and a2: "ensureAddressString env_refusing (js_index (JArr [JStr ''0x1234'', JStr alice]) 1) = Inr alice"
    by (simp_all add: env_refusing_sel buffer_1234 alice_ok)
  have c1: "fst (eth_requestAccounts env_refusing unauthorized) =
     Inl (ProviderError (JStr ''User denied account authorization'') USER_DENIED_REQUEST_ACCOUNTS JUndefined)"
    using relay_denial_remapped [OF m1, of unauthorized env_refusing] unauth contains_1
    by (simp add: env_refusing_sel)
  have c2: "fst (eth_sign env_refusing authorized (JArr [JStr alice, JStr ''0x1234''])) =
     Inl (ProviderError (JStr ''User denied message signature'') USER_DENIED_REQUEST_SIGNATURE JUndefined)"
    using relay_denial_remapped [OF m2, of authorized env_refusing "JArr [JStr alice, JStr ''0x1234'']"
        "[0x12, 0x34]" alice] auth contains_2 b1 a1
    by (simp add: env_refusing_sel)
  have c3: "fst (personal_sign env_refusing authorized (JArr [JStr ''0x1234'', JStr alice])) =
     Inl (ProviderError (JStr ''User denied message signature'') USER_DENIED_REQUEST_SIGNATURE JUndefined)"
    using relay_denial_remapped [OF m2, of authorized env_refusing "JArr [JStr ''0x1234'', JStr alice]"
        "[0x12, 0x34]" alice] auth contains_2 b2 a2
    by (simp add: env_refusing_sel)
  have c4: "fst (eth_signTransaction env_refusing authorized
            (JArr [JObj [(''to'', JStr bob), (''value'', JStr ''0x5'')]])) =
     Inl (Error ''relay timed out'')"
    using relay_denial_remapped [OF m3, of authorized env_refusing
        "JArr [JObj [(''to'', JStr bob), (''value'', JStr ''0x5'')]]" _ _ tx5] auth contains_3 tx
    by (simp add: env_refusing_sel)
  have c5: "fst (eth_sendTransaction env_refusing authorized
            (JArr [JObj [(''to'', JStr bob), (''value'', JStr ''0x5'')]])) =
     Inl (ProviderError (JStr ''User denied transaction signature'') USER_DENIED_REQUEST_SIGNATURE JUndefined)"
    using relay_denial_remapped [OF m4, of authorized env_refusing
        "JArr [JObj [(''to'', JStr bob), (''value'', JStr ''0x5'')]]" _ _ tx5] auth contains_4 tx
    by (simp add: env_refusing_sel)
  from c1 c2 c3 c4 c5 show ?thesis by simp
qed

section \<open>Properties of the asynchronous surface\<close>

lemma map_of_obj_put: "map_of (obj_put ps k v) k = Some v"
  by (induction ps) auto

lemma get_prop_with_id: "get_prop (with_id request res) ''id'' = Inr (req_id request)"
  by (simp add: with_id_def map_of_obj_put)

lemma with_id_response: "with_id request (response i r) = response (req_id request) r"
  by (simp add: with_id_def response_def)

lemma get_prop_response:
  "get_prop (response i r) ''id'' = Inr i" "get_prop (response i r) ''result'' = Inr r"
  by (simp_all add: response_def)

lemma resolve_with_id_Inr:
  "resolve_with_id request out = Inr res \<Longrightarrow> get_prop res ''id'' = Inr (req_id request)"
  by (auto simp: resolve_with_id_def get_prop_with_id split: sum.splits)

lemma not_sync_request_accounts:
  "req_method request = ''eth_requestAccounts'' \<Longrightarrow>
   handleSynchronousMethods env st request = (Inr JUndefined, st)
   \<and> handleAsynchronousFilterMethods env st request = (None, st)"
  by (simp add: handleSynchronousMethods_def handleAsynchronousFilterMethods_def)

text \<open>
  C2. With a non-empty address list, a request for accounts (the handler
  \<^verbatim>\<open>_eth_requestAccounts\<close>, the request \<^verbatim>\<open>eth_requestAccounts\<close> through
  \<^verbatim>\<open>_sendRequestAsync\<close> or through \<^verbatim>\<open>send(method, params)\<close>, and \<^verbatim>\<open>enable\<close>)
  gives the cached list and leaves the provider as it was: the trace is the same, so
  no window was opened or focused and the relay was not called.
\<close>

theorem request_accounts_cached:
  "addresses st \<noteq> [] \<Longrightarrow>
   eth_requestAccounts env st = (Inr (response (JNum 0) (eth_accounts st)), st)
   \<and> (req_method request = ''eth_requestAccounts'' \<longrightarrow>
        sendRequestAsync env st request = (Inr (response (req_id request) (eth_accounts st)), st))
   \<and> send_method env st ''eth_requestAccounts'' params = (Inr (eth_accounts st), st)
   \<and> enable env st = (Inr (eth_accounts st), st)"
proof (intro conjI impI)
  assume ne: "addresses st \<noteq> []"
  show acc: "eth_requestAccounts env st = (Inr (response (JNum 0) (eth_accounts st)), st)"
    using ne by (simp add: eth_requestAccounts_def eth_requestAccounts_begin_def)
  have beg: "eth_requestAccounts_begin env st = (Settled (Inr (response (JNum 0) (eth_accounts st))), st)"
    using ne by (simp add: eth_requestAccounts_begin_def)
  have async: "sendRequestAsync env st request = (Inr (response (req_id request) (eth_accounts st)), st)"
    if "req_method request = ''eth_requestAccounts''" for request
    using that not_sync_request_accounts [OF that, of env st]
    by (simp add: sendRequestAsync_def sendRequestAsync_begin_def handleAsynchronousMethods_begin_def
        beg resolve_with_id_def with_id_response)
  show "sendRequestAsync env st request = (Inr (response (req_id request) (eth_accounts st)), st)"
    if "req_method request = ''eth_requestAccounts''"
    using that by (rule async)
  show "send_method env st ''eth_requestAccounts'' params = (Inr (eth_accounts st), st)"
    by (simp add: send_method_def async get_prop_response Let_def)
  show "enable env st = (Inr (eth_accounts st), st)"
    using ne by (simp add: enable_def)
qed

theorem request_accounts_cached_witness:
  "eth_requestAccounts env_refusing authorized = (Inr (response (JNum 0) (JArr [JStr alice])), authorized)
   \<and> sendRequestAsync env_refusing authorized
       \<lparr>req_id = JNum 9, req_method = ''eth_requestAccounts'', req_params = JArr []\<rparr>
     = (Inr (response (JNum 9) (JArr [JStr alice])), authorized)
   \<and> send_method env_refusing authorized ''eth_requestAccounts'' JUndefined
     = (Inr (JArr [JStr alice]), authorized)
   \<and> enable env_refusing authorized = (Inr (JArr [JStr alice]), authorized)
   \<and> trace authorized = []"
proof -
  have ne: "addresses authorized \<noteq> []"
    by (simp add: authorized_def)
  show ?thesis
    using request_accounts_cached [OF ne, of env_refusing
        "\<lparr>req_id = JNum 9, req_method = ''eth_requestAccounts'', req_params = JArr []\<rparr>" JUndefined]
    by (simp add: eth_accounts_def authorized_def)
qed

section \<open>Properties of the remote fallback\<close>

lemma fallback_reached:
  "req_method request \<notin> relay_table \<Longrightarrow>
   handleAsynchronousMethods env st request = remote_fallback env st request"
  by (simp add: handleAsynchronousMethods_def handleAsynchronousMethods_begin_def relay_table_def
      settled_def split: prod.splits)

text \<open>
  C8 (as amended). For a request that \<^verbatim>\<open>_handleAsynchronousMethods\<close> forwards (its
  method is not in the relay table), exactly one fetch is made, whatever the outcome.
  A failure of the fetch or of the parsing is the outcome as it is. A falsy parsed
  body (\<^verbatim>\<open>null\<close>, \<^verbatim>\<open>false\<close>, \<^verbatim>\<open>0\<close>, the empty string) fails with the
  \<^verbatim>\<open>ProviderError\<close> "unexpected response". A truthy body whose \<^verbatim>\<open>error\<close> is truthy
  fails with a \<^verbatim>\<open>ProviderError\<close> carrying the error's code and data and the
  error's message, or "RPC Error" when that message is falsy (absent or empty). A
  truthy body whose \<^verbatim>\<open>error\<close> is falsy (absent or \<^verbatim>\<open>null\<close>) resolves with the body
  itself.
\<close>

theorem remote_fallback_outcomes:
  assumes "req_method request \<notin> relay_table"
  shows
  "snd (handleAsynchronousMethods env st request) = log (Fetch (cfg_jsonRpcUrl env) request) st
   \<and> (\<forall>e. fetch_json env (cfg_jsonRpcUrl env) request = Inl e \<longrightarrow>
        fst (handleAsynchronousMethods env st request) = Inl e)
   \<and> (\<forall>json. fetch_json env (cfg_jsonRpcUrl env) request = Inr json \<longrightarrow>
        (\<not> truthy json \<longrightarrow>
           fst (handleAsynchronousMethods env st request) =
             Inl (ProviderError (JStr ''unexpected response'') (Code JUndefined) JUndefined))
        \<and> (\<forall>error message code d.
             get_prop json ''error'' = Inr error \<longrightarrow> truthy error \<longrightarrow>
             get_prop error ''message'' = Inr message \<longrightarrow> get_prop error ''code'' = Inr code \<longrightarrow>
             get_prop error ''data'' = Inr d \<longrightarrow>
             fst (handleAsynchronousMethods env st request) =
               Inl (ProviderError (if truthy message then message else JStr ''RPC Error'') (Code code) d))
        \<and> (\<forall>error. truthy json \<longrightarrow> get_prop json ''error'' = Inr error \<longrightarrow> \<not> truthy error \<longrightarrow>
             fst (handleAsynchronousMethods env st request) = Inr json))"
proof -
  have truthy_prop: "\<And>v k x. get_prop v k = Inr x \<Longrightarrow> truthy x \<Longrightarrow> truthy v"
    by (case_tac v) auto
  show ?thesis
    unfolding fallback_reached [OF assms]
    by (auto simp: remote_fallback_def and_then_def dest: truthy_prop)
qed

lemma blockNumber_forwarded: "req_method blockNumber \<notin> relay_table"
  by (simp add: blockNumber_def relay_table_def)

theorem remote_fallback_outcomes_witness:
  "handleAsynchronousMethods env_remote_null unauthorized blockNumber =
     (Inl (ProviderError (JStr ''unexpected response'') (Code JUndefined) JUndefined),
      \<lparr>addresses = [], walletLinkWindow = None,
       trace = [Fetch ''https://node.example/rpc'' blockNumber]\<rparr>)
   \<and> handleAsynchronousMethods env_remote_error unauthorized blockNumber =
     (Inl (ProviderError (JStr ''RPC Error'') (Code (JNum (- 32000))) JUndefined),
      \<lparr>addresses = [], walletLinkWindow = None,
       trace = [Fetch ''https://node.example/rpc'' blockNumber]\<rparr>)
   \<and> handleAsynchronousMethods env0 unauthorized blockNumber =
     (Inr (JObj [(''jsonrpc'', JStr ''2.0''), (''id'', JNum 1), (''result'', JStr ''0x10'')]),
      \<lparr>addresses = [], walletLinkWindow = None,
       trace = [Fetch ''https://node.example/rpc'' blockNumber]\<rparr>)"
proof -
  have "fst (handleAsynchronousMethods env_remote_null unauthorized blockNumber) =
      Inl (ProviderError (JStr ''unexpected response'') (Code JUndefined) JUndefined)
    \<and> snd (handleAsynchronousMethods env_remote_null unauthorized blockNumber) =
      \<lparr>addresses = [], walletLinkWindow = None, trace = [Fetch ''https://node.example/rpc'' blockNumber]\<rparr>"
    using remote_fallback_outcomes [OF blockNumber_forwarded, of env_remote_null unauthorized]
    by (simp add: env_remote_null_def env0_def log_def unauthorized_def)
  moreover have "fst (handleAsynchronousMethods env_remote_error unauthorized blockNumber) =
      Inl (ProviderError (JStr ''RPC Error'') (Code (JNum (- 32000))) JUndefined)
    \<and> snd (handleAsynchronousMethods env_remote_error unauthorized blockNumber) =
      \<lparr>addresses = [], walletLinkWindow = None, trace = [Fetch ''https://node.example/rpc'' blockNumber]\<rparr>"
    using remote_fallback_outcomes [OF blockNumber_forwarded, of env_remote_error unauthorized]
    by (simp add: env_remote_error_def env0_def log_def unauthorized_def)
  moreover have "fst (handleAsynchronousMethods env0 unauthorized blockNumber) =
      Inr (JObj [(''jsonrpc'', JStr ''2.0''), (''id'', JNum 1), (''result'', JStr ''0x10'')])
    \<and> snd (handleAsynchronousMethods env0 unauthorized blockNumber) =
      \<lparr>addresses = [], walletLinkWindow = None, trace = [Fetch ''https://node.example/rpc'' blockNumber]\<rparr>"
    using remote_fallback_outcomes [OF blockNumber_forwarded, of env0 unauthorized]
    by (simp add: env0_def log_def unauthorized_def)
  ultimately show ?thesis
    by (simp add: prod_eq_iff)
qed

text \<open>
  C8 as stated fails twice. A body that carries the error
  \<^verbatim>\<open>{"code": -32000, "message": ""}\<close> makes the call fail with the message
  "RPC Error", which is not that error's message; and a body that carries
  \<^verbatim>\<open>"error": null\<close> beside its result does not make the call fail.
\<close>

theorem remote_error_field_counterexample:
  "fst (handleAsynchronousMethods env_remote_error unauthorized blockNumber) =
     Inl (ProviderError (JStr ''RPC Error'') (Code (JNum (- 32000))) JUndefined)
   \<and> fst (handleAsynchronousMethods env_remote_null_error unauthorized blockNumber) =
     Inr (JObj [(''jsonrpc'', JStr ''2.0''), (''id'', JNum 1), (''result'', JStr ''0x10''),
                (''error'', JNull)])"
  by (simp add: handleAsynchronousMethods_def handleAsynchronousMethods_begin_def settled_def
      remote_fallback_def and_then_def blockNumber_def env_remote_error_def
      env_remote_null_error_def env0_def)

section \<open>Properties of the correlation id\<close>

lemma try_relay_Inr: "try_relay denied answer = Inr res \<Longrightarrow> \<exists>r. res = response (JNum 0) r"
  by (auto simp: try_relay_def and_then_def split: sum.splits)

lemma plain_relay_Inr: "plain_relay answer = Inr res \<Longrightarrow> \<exists>r. res = response (JNum 0) r"
  by (auto simp: plain_relay_def and_then_def split: sum.splits)

lemma eth_requestAccounts_resume_Inr:
  "eth_requestAccounts_resume env st = (Inr res, st') \<Longrightarrow> \<exists>r. res = response (JNum 0) r"
  by (auto simp: eth_requestAccounts_resume_def Let_def split: sum.splits if_splits prod.splits)

lemma eth_requestAccounts_begin_Inr:
  "eth_requestAccounts_begin env st = (Settled (Inr res), st') \<Longrightarrow> \<exists>r. res = response (JNum 0) r"
  by (auto simp: eth_requestAccounts_begin_def Let_def split: if_splits)

lemma relay_handlers_Inr:
  "eth_sign env st params = (Inr res, st') \<Longrightarrow> \<exists>r. res = response (JNum 0) r"
  "eth_ecRecover env st params = (Inr res, st') \<Longrightarrow> \<exists>r. res = response (JNum 0) r"
  "personal_sign env st params = (Inr res, st') \<Longrightarrow> \<exists>r. res = response (JNum 0) r"
  "personal_ecRecover env st params = (Inr res, st') \<Longrightarrow> \<exists>r. res = response (JNum 0) r"
  "eth_signTransaction env st params = (Inr res, st') \<Longrightarrow> \<exists>r. res = response (JNum 0) r"
  "eth_sendRawTransaction env st params = (Inr res, st') \<Longrightarrow> \<exists>r. res = response (JNum 0) r"
  "eth_sendTransaction env st params = (Inr res, st') \<Longrightarrow> \<exists>r. res = response (JNum 0) r"
  by (auto simp: eth_sign_def eth_ecRecover_def personal_sign_def personal_ecRecover_def
      eth_signTransaction_def eth_sendRawTransaction_def eth_sendTransaction_def
      split: sum.splits dest: try_relay_Inr plain_relay_Inr)

lemma eth_requestAccounts_Inr:
  "eth_requestAccounts env st = (Inr res, st') \<Longrightarrow> \<exists>r. res = response (JNum 0) r"
  by (auto simp: eth_requestAccounts_def split: prod.splits task.splits
      dest: eth_requestAccounts_begin_Inr eth_requestAccounts_resume_Inr)

lemma handleAsynchronousMethods_eq:
  "handleAsynchronousMethods env st request =
     (if req_method request = ''eth_requestAccounts'' then eth_requestAccounts env st
      else if req_method request = ''eth_sign'' then eth_sign env st (params_of request)
      else if req_method request = ''eth_ecRecover'' then eth_ecRecover env st (params_of request)
      else if req_method request = ''personal_sign'' then personal_sign env st (params_of request)
      else if req_method request = ''personal_ecRecover''
        then personal_ecRecover env st (params_of request)
      else if req_method request = ''eth_signTransaction''
        then eth_signTransaction env st (params_of request)
      else if req_method request = ''eth_sendRawTransaction''
        then eth_sendRawTransaction env st (params_of request)
      else if req_method request = ''eth_sendTransaction''
        then eth_sendTransaction env st (params_of request)
      else remote_fallback env st request)"
  by (simp add: handleAsynchronousMethods_def handleAsynchronousMethods_begin_def settled_def
      eth_requestAccounts_def Let_def)

lemma relay_table_id_0:
  assumes "req_method request \<in> relay_table"
    and "handleAsynchronousMethods env st request = (Inr res, st')"
  shows "\<exists>r. res = response (JNum 0) r"
  using assms unfolding handleAsynchronousMethods_eq relay_table_def
  by (auto split: if_splits dest: eth_requestAccounts_Inr relay_handlers_Inr)

lemma new_filter_id_0:
  assumes "req_method request \<in> {''eth_newFilter'', ''eth_newBlockFilter'', ''eth_newPendingTransactionFilter''}"
    and "handleAsynchronousFilterMethods env st request = (Some (Inr res), st')"
  shows "\<exists>r. res = response (JNum 0) r"
  using assms
  by (auto simp: handleAsynchronousFilterMethods_def and_then_def Let_def split: sum.splits)

lemma sendRequestAsync_begin_id:
  "sendRequestAsync_begin env st request = (Settled (Inr res), st') \<Longrightarrow>
   get_prop res ''id'' = Inr (req_id request)"
  by (auto simp: sendRequestAsync_begin_def get_prop_response
      split: prod.splits sum.splits if_splits option.splits task.splits
      dest: resolve_with_id_Inr)

lemma sendRequestAsync_resume_id:
  "sendRequestAsync_resume env st request = (Inr res, st') \<Longrightarrow>
   get_prop res ''id'' = Inr (req_id request)"
  by (auto simp: sendRequestAsync_resume_def split: prod.splits dest: resolve_with_id_Inr)

lemma sendRequestAsync_id:
  "sendRequestAsync env st request = (Inr res, st') \<Longrightarrow>
   get_prop res ''id'' = Inr (req_id request)"
  by (auto simp: sendRequestAsync_def split: prod.splits task.splits
      dest: sendRequestAsync_begin_id sendRequestAsync_resume_id)

text \<open>
  C9. Whenever \<^verbatim>\<open>_sendRequestAsync\<close> resolves, the response carries the id of the
  request. The handlers of the relay table and the three handlers that install a
  filter build their own response with the id 0.
\<close>

theorem async_response_carries_request_id:
  "(sendRequestAsync env st request = (Inr res, st') \<longrightarrow>
      get_prop res ''id'' = Inr (req_id request))
   \<and> (req_method request \<in> relay_table \<longrightarrow>
        handleAsynchronousMethods env st request = (Inr res0, st0) \<longrightarrow>
        get_prop res0 ''id'' = Inr (JNum 0))
   \<and> (req_method request \<in>
          {''eth_newFilter'', ''eth_newBlockFilter'', ''eth_newPendingTransactionFilter''} \<longrightarrow>
        handleAsynchronousFilterMethods env st request = (Some (Inr res1), st1) \<longrightarrow>
        get_prop res1 ''id'' = Inr (JNum 0))"
  using sendRequestAsync_id [of env st request res st']
    relay_table_id_0 [of request env st res0 st0]
    new_filter_id_0 [of request env st res1 st1]
  by (auto simp: get_prop_response)

lemma env0_sel:
  "cfg_appName env0 = ''DApp''"
  "cfg_chainId env0 = 1"
  "cfg_jsonRpcUrl env0 = ''https://node.example/rpc''"
  "ensureAddressString env0 = sample_ensureAddressString"
  "ensureHexString env0 = sample_ensureHexString"
  "ensureBN env0 = sample_ensureBN"
  "ensureBuffer env0 = sample_ensureBuffer"
  "signEthereumMessage env0 = (\<lambda>message address addPrefix. Inr (JObj [(''result'', JStr ''0x5161'')]))"
  "requestEthereumAccounts env0 = (\<lambda>appName. Inr (JObj [(''result'', JArr [JStr alice])]))"
  "storage_setItem env0 = (\<lambda>key value. Inr ())"
  "openWalletLinkWindow env0 = Some \<lparr>opener = True\<rparr>"
  "newBlockFilter env0 = Inr (JStr ''0x2'')"
  by (simp_all add: env0_def)

lemma eth_sign_sample:
  "eth_sign env0 authorized (JArr [JStr alice, JStr ''0x1234'']) =
     (Inr (response (JNum 0) (JStr ''0x5161'')),
      log (SignEthereumMessage [0x12, 0x34] alice False) authorized)"
  by (simp add: eth_sign_def requireAuthorization_def env0_sel buffer_1234 alice_ok try_relay_def
      and_then_def)
    (simp add: authorized_def)

lemma sign_request_async:
  "handleAsynchronousMethods env0 authorized sign_request =
     (Inr (response (JNum 0) (JStr ''0x5161'')),
      log (SignEthereumMessage [0x12, 0x34] alice False) authorized)"
  by (simp add: handleAsynchronousMethods_eq sign_request_def params_of_def eth_sign_sample)

lemma sign_request_sent:
  "sendRequestAsync env0 authorized sign_request =
     (Inr (response (JNum 42) (JStr ''0x5161'')),
      log (SignEthereumMessage [0x12, 0x34] alice False) authorized)"
  by (simp add: sendRequestAsync_def sendRequestAsync_begin_def handleSynchronousMethods_def
      handleAsynchronousFilterMethods_def handleAsynchronousMethods_begin_def settled_def
      sign_request_def params_of_def eth_sign_sample resolve_with_id_def with_id_response)

lemma block_filter_sample:
  "handleAsynchronousFilterMethods env0 authorized block_filter_request =
     (Some (Inr (response (JNum 0) (JStr ''0x2''))), log NewBlockFilter authorized)"
  by (simp add: handleAsynchronousFilterMethods_def block_filter_request_def env0_sel and_then_def)

theorem async_response_carries_request_id_witness:
  "sendRequestAsync env0 authorized sign_request =
     (Inr (response (JNum 42) (JStr ''0x5161'')),
      log (SignEthereumMessage [0x12, 0x34] alice False) authorized)
   \<and> get_prop (response (JNum 42) (JStr ''0x5161'')) ''id'' = Inr (req_id sign_request)
   \<and> req_method sign_request \<in> relay_table
   \<and> handleAsynchronousMethods env0 authorized sign_request =
     (Inr (response (JNum 0) (JStr ''0x5161'')),
      log (SignEthereumMessage [0x12, 0x34] alice False) authorized)
   \<and> get_prop (response (JNum 0) (JStr ''0x5161'')) ''id'' = Inr (JNum 0)
   \<and> handleAsynchronousFilterMethods env0 authorized block_filter_request =
     (Some (Inr (response (JNum 0) (JStr ''0x2''))), log NewBlockFilter authorized)
   \<and> get_prop (response (JNum 0) (JStr ''0x2'')) ''id'' = Inr (JNum 0)"
  using async_response_carries_request_id
      [of env0 authorized sign_request "response (JNum 42) (JStr ''0x5161'')"
          "log (SignEthereumMessage [0x12, 0x34] alice False) authorized"
          "response (JNum 0) (JStr ''0x5161'')"
          "log (SignEthereumMessage [0x12, 0x34] alice False) authorized"]
    async_response_carries_request_id
      [of env0 authorized block_filter_request _ _ _ _
          "response (JNum 0) (JStr ''0x2'')" "log NewBlockFilter authorized"]
    sign_request_sent sign_request_async block_filter_sample
  by (simp add: relay_table_def sign_request_def block_filter_request_def)

section \<open>Properties of batches\<close>

lemma fulfilment_carried: "fulfilment el = Some v \<Longrightarrow> carried el = Some (Inr v)"
  by (cases el rule: fulfilment.cases) auto

lemma begin_element_answers: "begin_element env st r = (el, st1) \<Longrightarrow> answers r el"
  using sendRequestAsync_begin_id [of env st r _ st1]
  by (auto simp: begin_element_def answers_def split: prod.splits task.splits moment.splits)

lemma begin_element_not_answered: "begin_element env st r = (el, st1) \<Longrightarrow> el \<noteq> Answered out"
  by (auto simp: begin_element_def split: prod.splits task.splits moment.splits)

lemma begin_all_answers:
  "begin_all env st requests = (es, st') \<Longrightarrow> list_all2 answers requests es"
proof (induction requests arbitrary: st es st')
  case Nil
  then show ?case by simp
next
  case (Cons r rs)
  obtain el st1 where b: "begin_element env st r = (el, st1)"
    by (cases "begin_element env st r")
  obtain es1 st2 where bs: "begin_all env st1 rs = (es1, st2)"
    by (cases "begin_all env st1 rs")
  from Cons.prems b bs have es: "es = el # es1"
    by simp
  with Cons.IH [OF bs] begin_element_answers [OF b] show ?case
    by simp
qed

lemma begin_all_not_answered:
  "begin_all env st requests = (es, st') \<Longrightarrow> \<forall>el \<in> set es. \<forall>out. el \<noteq> Answered out"
proof (induction requests arbitrary: st es st')
  case Nil
  then show ?case by simp
next
  case (Cons r rs)
  obtain el st1 where b: "begin_element env st r = (el, st1)"
    by (cases "begin_element env st r")
  obtain es1 st2 where bs: "begin_all env st1 rs = (es1, st2)"
    by (cases "begin_all env st1 rs")
  from Cons.prems b bs have es: "es = el # es1"
    by simp
  with Cons.IH [OF bs] begin_element_not_answered [OF b] show ?case
    by auto
qed

lemma resume_all_answers:
  "resume_all env st requests es order = (es', st') \<Longrightarrow> list_all2 answers requests es \<Longrightarrow>
   list_all2 answers requests es'"
proof (induction order arbitrary: st es)
  case Nil
  then show ?case by simp
next
  case (Cons i order)
  show ?case
  proof (cases "i < length es \<and> i < length requests")
    case False
    with Cons.prems Cons.IH [of st es] show ?thesis
      by auto
  next
    case True
    then have a: "answers (requests ! i) (es ! i)"
      using Cons.prems(2) by (simp add: list_all2_nthD)
    show ?thesis
    proof (cases "es ! i")
      case Awaiting_accounts
      obtain out st1 where r: "sendRequestAsync_resume env st (requests ! i) = (out, st1)"
        by (cases "sendRequestAsync_resume env st (requests ! i)")
      have "answers (requests ! i) (Answered out)"
        using sendRequestAsync_resume_id [of env st "requests ! i" _ st1] r
        by (auto simp: answers_def)
      then have "list_all2 answers requests (es[i := Answered out])"
        using Cons.prems(2) True
        by (metis list_all2_update_cong list_update_id)
      moreover have "resume_all env st1 requests (es[i := Answered out]) order = (es', st')"
        using Cons.prems(1) True r Awaiting_accounts by simp
      ultimately show ?thesis
        by (rule Cons.IH [rotated])
    next
      case (Awaiting out)
      have "answers (requests ! i) (Answered out)"
        using a Awaiting by (simp add: answers_def)
      then have "list_all2 answers requests (es[i := Answered out])"
        using Cons.prems(2) True
        by (metis list_all2_update_cong list_update_id)
      moreover have "resume_all env st requests (es[i := Answered out]) order = (es', st')"
        using Cons.prems(1) True Awaiting by simp
      ultimately show ?thesis
        by (rule Cons.IH [rotated])
    qed (use Cons.prems True Cons.IH [of st es] in auto)
  qed
qed

lemma resume_all_answered:
  "resume_all env st requests es order = (es', st') \<Longrightarrow> i < length es' \<Longrightarrow>
   es' ! i = Answered out \<Longrightarrow> i \<in> set order \<or> es ! i = Answered out"
proof (induction order arbitrary: st es)
  case Nil
  then show ?case by simp
next
  case (Cons k order)
  show ?case
  proof (cases "k < length es \<and> k < length requests")
    case False
    with Cons.prems Cons.IH [of st es] show ?thesis
      by auto
  next
    case True
    show ?thesis
    proof (cases "es ! k")
      case Awaiting_accounts
      obtain o1 st1 where r: "sendRequestAsync_resume env st (requests ! k) = (o1, st1)"
        by (cases "sendRequestAsync_resume env st (requests ! k)")
      have "resume_all env st1 requests (es[k := Answered o1]) order = (es', st')"
        using Cons.prems(1) True r Awaiting_accounts by simp
      from Cons.IH [OF this Cons.prems(2,3)] show ?thesis
        by (cases "i = k") auto
    next
      case (Awaiting o1)
      have "resume_all env st requests (es[k := Answered o1]) order = (es', st')"
        using Cons.prems(1) True Awaiting by simp
      from Cons.IH [OF this Cons.prems(2,3)] show ?thesis
        by (cases "i = k") auto
    qed (use Cons.prems True Cons.IH [of st es] in auto)
  qed
qed

lemma first_hit:
  "xs = pre @ i # post \<Longrightarrow> \<forall>j \<in> set pre. f j = [] \<Longrightarrow> f i = [e] \<Longrightarrow>
   concat (map f xs) = e # concat (map f post)"
  by simp

lemma no_hit: "\<forall>j \<in> set xs. f j = [] \<Longrightarrow> concat (map f xs) = []"
  by simp

lemma upt_split: "i < n \<Longrightarrow> [0..<n] = [0..<i] @ i # [Suc i..<n]"
  using id_take_nth_drop [of i "[0..<n]"] by simp

lemma fulfilment_rejection: "fulfilment el = Some v \<Longrightarrow> rejection el = None"
  by (cases el rule: fulfilment.cases) auto

lemma rejection_cases:
  "rejection el = Some e \<longleftrightarrow> el = By_executor (Inl e) \<or> el = By_handler (Inl e) \<or> el = Answered (Inl e)"
  by (cases el rule: rejection.cases) auto

lemma rejections_mem:
  "e \<in> set (rejections es order) \<Longrightarrow> \<exists>i < length es. rejection (es ! i) = Some e"
  by (auto simp: rejections_def rejection_cases split: if_splits element.splits sum.splits)

lemma rejections_none:
  "\<forall>i < length es. rejection (es ! i) = None \<Longrightarrow> rejections es order = []"
proof (rule ccontr)
  assume none: "\<forall>i < length es. rejection (es ! i) = None" and "rejections es order \<noteq> []"
  then obtain e where "e \<in> set (rejections es order)"
    by (cases "rejections es order") auto
  from rejections_mem [OF this] none show False
    by auto
qed

lemma rejections_executor:
  assumes "i < length es" "es ! i = By_executor (Inl e)"
    and "\<forall>j < i. \<forall>e'. es ! j \<noteq> By_executor (Inl e')"
  shows "\<exists>rest. rejections es order = e # rest"
proof -
  let ?f = "\<lambda>i. case es ! i of By_executor (Inl e) \<Rightarrow> [e] | _ \<Rightarrow> []"
  have "\<forall>j \<in> set [0..<i]. ?f j = []"
    using assms(3) by (auto split: element.splits sum.splits)
  moreover have "?f i = [e]"
    using assms(2) by simp
  ultimately have f: "concat (map ?f [0..<length es]) = e # concat (map ?f [Suc i..<length es])"
    using first_hit [OF upt_split [OF assms(1)], of ?f e] by blast
  show ?thesis
    unfolding rejections_def f by simp
qed

lemma rejections_handler:
  assumes "i < length es" "es ! i = By_handler (Inl e)"
    and "\<forall>j < length es. \<forall>e'. es ! j \<noteq> By_executor (Inl e')"
    and "\<forall>j < i. \<forall>e'. es ! j \<noteq> By_handler (Inl e')"
  shows "\<exists>rest. rejections es order = e # rest"
proof -
  let ?f = "\<lambda>i. case es ! i of By_executor (Inl e) \<Rightarrow> [e] | _ \<Rightarrow> []"
  let ?g = "\<lambda>i. case es ! i of By_handler (Inl e) \<Rightarrow> [e] | _ \<Rightarrow> []"
  have "\<forall>j \<in> set [0..<length es]. ?f j = []"
    using assms(3) by (auto split: element.splits sum.splits)
  then have f: "concat (map ?f [0..<length es]) = []"
    by (rule no_hit)
  have "\<forall>j \<in> set [0..<i]. ?g j = []"
    using assms(4) by (auto split: element.splits sum.splits)
  moreover have "?g i = [e]"
    using assms(2) by simp
  ultimately have g: "concat (map ?g [0..<length es]) = e # concat (map ?g [Suc i..<length es])"
    using first_hit [OF upt_split [OF assms(1)], of ?g e] by blast
  show ?thesis
    unfolding rejections_def f g by simp
qed

lemma rejections_answered:
  assumes "order = pre @ i # post" "i < length es" "es ! i = Answered (Inl e)"
    and "\<forall>j < length es. \<forall>e'. es ! j \<noteq> By_executor (Inl e') \<and> es ! j \<noteq> By_handler (Inl e')"
    and "\<forall>j \<in> set pre. j < length es \<longrightarrow> rejection (es ! j) = None"
  shows "\<exists>rest. rejections es order = e # rest"
proof -
  let ?f = "\<lambda>i. case es ! i of By_executor (Inl e) \<Rightarrow> [e] | _ \<Rightarrow> []"
  let ?g = "\<lambda>i. case es ! i of By_handler (Inl e) \<Rightarrow> [e] | _ \<Rightarrow> []"
  let ?h = "\<lambda>i. if i < length es then (case es ! i of Answered (Inl e) \<Rightarrow> [e] | _ \<Rightarrow> []) else []"
  have "\<forall>j \<in> set [0..<length es]. ?f j = []" "\<forall>j \<in> set [0..<length es]. ?g j = []"
    using assms(4) by (auto split: element.splits sum.splits)
  then have fg: "concat (map ?f [0..<length es]) = []" "concat (map ?g [0..<length es]) = []"
    by (simp_all only: no_hit)
  have "\<forall>j \<in> set pre. ?h j = []"
    using assms(5) by (auto split: element.splits sum.splits)
  moreover have "?h i = [e]"
    using assms(2,3) by simp
  ultimately have h: "concat (map ?h order) = e # concat (map ?h post)"
    using first_hit [OF assms(1), of ?h e] by blast
  show ?thesis
    unfolding rejections_def fg h by simp
qed

lemma rejections_some:
  assumes "i < length es" "rejection (es ! i) = Some e"
    and "\<forall>i < length es. \<forall>out. es ! i = Answered out \<longrightarrow> i \<in> set order"
  shows "rejections es order \<noteq> []"
proof -
  from assms(2) consider "es ! i = By_executor (Inl e)" | "es ! i = By_handler (Inl e)"
    | "es ! i = Answered (Inl e)"
    by (auto simp: rejection_cases)
  then have "e \<in> set (rejections es order)"
  proof cases
    case 1
    then show ?thesis
      using assms(1) unfolding rejections_def set_append set_concat set_map
      by (intro UnI1) (auto intro!: bexI [of _ i])
  next
    case 2
    then show ?thesis
      using assms(1) unfolding rejections_def set_append set_concat set_map
      by (intro UnI1 UnI2) (auto intro!: bexI [of _ i])
  next
    case 3
    with assms(1,3) have "i \<in> set order"
      by blast
    with 3 show ?thesis
      using assms(1) unfolding rejections_def set_append set_concat set_map
      by (intro UnI2) (auto intro!: bexI [of _ i])
  qed
  then show ?thesis
    by auto
qed

lemma fulfilled_iff: "fulfilled es = Some vs \<longleftrightarrow> map fulfilment es = map Some vs"
proof (induction es arbitrary: vs)
  case Nil
  show ?case by auto
next
  case (Cons el es)
  show ?case
  proof (cases vs)
    case Nil
    then show ?thesis by (auto split: option.splits)
  next
    case (Cons v vs')
    then show ?thesis
      using Cons.IH [of vs'] by (auto split: option.splits)
  qed
qed

lemma fulfilled_None_set: "fulfilled es = None \<longleftrightarrow> (\<exists>el \<in> set es. fulfilment el = None)"
  by (induction es) (auto split: option.splits)

lemma fulfilled_None: "fulfilled es = None \<longleftrightarrow> (\<exists>i < length es. fulfilment (es ! i) = None)"
  unfolding fulfilled_None_set by (metis in_set_conv_nth)

text \<open>
  C7. Let a batch be sent through \<^verbatim>\<open>sendAsync\<close> with a callback, the collaborators
  answering in any order or not at all, and let \<^verbatim>\<open>es\<close> be the promises of the
  elements at the end, one per request. When every element is fulfilled, the callback
  is called with no error and the list of the responses in the order of the
  requests, each carrying the id of its request (and once more, with its own error
  and \<^verbatim>\<open>null\<close>, if it throws). The callback is called with a result in no other case.
  While no element is rejected and some element is not settled, the callback is not
  called. When some element is rejected, the callback is called exactly once, with
  \<^verbatim>\<open>null\<close> as result and the error of the element that is rejected first: the first
  in the array whose executor rejects; if there is none, the first in the array whose
  handler fails before any answer; if there is none, the first to be rejected after
  an answer.
\<close>

theorem batch_callback_all_or_nothing:
  assumes run: "sendMultipleRequestsAsync env st order requests = ((p, es), st')"
  shows
  "\<exists>calls. sendAsync env st order (Batch requests) (Some cb) = (Inr calls, st')
     \<and> length es = length requests
     \<and> (\<forall>responses. map fulfilment es = map Some responses \<longrightarrow>
          calls = then_catch cb (Inr (JArr responses))
          \<and> (\<forall>i < length requests.
                get_prop (responses ! i) ''id'' = Inr (req_id (requests ! i))))
     \<and> (\<forall>r. (None, r) \<in> set calls \<longrightarrow>
          (\<exists>responses. r = JArr responses \<and> map fulfilment es = map Some responses))
     \<and> ((\<forall>i < length es. rejection (es ! i) = None)
          \<and> (\<exists>i < length es. fulfilment (es ! i) = None) \<longrightarrow> calls = [])
     \<and> (\<forall>i e. i < length es \<and> es ! i = By_executor (Inl e)
            \<and> (\<forall>j < i. \<forall>e'. es ! j \<noteq> By_executor (Inl e')) \<longrightarrow>
          calls = [(Some e, JNull)])
     \<and> (\<forall>i e. i < length es \<and> es ! i = By_handler (Inl e)
            \<and> (\<forall>j < length es. \<forall>e'. es ! j \<noteq> By_executor (Inl e'))
            \<and> (\<forall>j < i. \<forall>e'. es ! j \<noteq> By_handler (Inl e')) \<longrightarrow>
          calls = [(Some e, JNull)])
     \<and> (\<forall>pre i post e. order = pre @ i # post \<and> i < length es \<and> es ! i = Answered (Inl e)
            \<and> (\<forall>j < length es. \<forall>e'. es ! j \<noteq> By_executor (Inl e') \<and> es ! j \<noteq> By_handler (Inl e'))
            \<and> (\<forall>j \<in> set pre. j < length es \<longrightarrow> rejection (es ! j) = None) \<longrightarrow>
          calls = [(Some e, JNull)])
     \<and> ((\<exists>i < length es. rejection (es ! i) \<noteq> None) \<longrightarrow>
          (\<exists>i < length es. \<exists>e. rejection (es ! i) = Some e \<and> calls = [(Some e, JNull)]))"
proof -
  obtain es0 st1 where b: "begin_all env st requests = (es0, st1)"
    by (cases "begin_all env st requests")
  obtain es1 st2 where r: "resume_all env st1 requests es0 order = (es1, st2)"
    by (cases "resume_all env st1 requests es0 order")
  from run b r have p: "p = Promise_all es order" and es: "es1 = es" and st': "st2 = st'"
    by (auto simp: sendMultipleRequestsAsync_def)
  have all2: "list_all2 answers requests es"
    using resume_all_answers [OF r begin_all_answers [OF b]] es by simp
  then have len: "length es = length requests"
    by (simp add: list_all2_lengthD)
  have listed: "\<forall>i < length es. \<forall>out. es ! i = Answered out \<longrightarrow> i \<in> set order"
  proof (intro allI impI)
    fix i out
    assume i: "i < length es" and a: "es ! i = Answered out"
    have "length es0 = length es"
      using begin_all_answers [OF b] len by (simp add: list_all2_lengthD)
    with i begin_all_not_answered [OF b] have "es0 ! i \<noteq> Answered out"
      by (metis nth_mem)
    with resume_all_answered [OF r, of i out] i a es show "i \<in> set order"
      by auto
  qed
  have ids: "get_prop (responses ! i) ''id'' = Inr (req_id (requests ! i))"
    if "map fulfilment es = map Some responses" "i < length requests" for responses i
  proof -
    from that len have "fulfilment (es ! i) = Some (responses ! i)"
      by (metis length_map nth_map)
    then have "carried (es ! i) = Some (Inr (responses ! i))"
      by (rule fulfilment_carried)
    with list_all2_nthD2 [OF all2, of i] that len show ?thesis
      by (simp add: answers_def)
  qed
  have full_norej: "\<forall>i < length es. rejection (es ! i) = None"
    if "map fulfilment es = map Some responses" for responses
  proof (intro allI impI)
    fix i assume "i < length es"
    with that have "fulfilment (es ! i) = Some (responses ! i)"
      by (metis length_map nth_map)
    then show "rejection (es ! i) = None"
      by (rule fulfilment_rejection)
  qed
  show ?thesis
  proof (cases "rejections es order")
    case (Cons e rest)
    then have pe: "p = Some (Inl e)"
      by (simp add: p Promise_all_def)
    have send: "sendAsync env st order (Batch requests) (Some cb) = (Inr [(Some e, JNull)], st')"
      using run pe by (simp add: sendAsync_def then_catch_def)
    from Cons have "e \<in> set (rejections es order)"
      by simp
    from rejections_mem [OF this] obtain i where i: "i < length es" "rejection (es ! i) = Some e"
      by blast
    have a: "map fulfilment es \<noteq> map Some responses" for responses
      using full_norej [of responses] i by auto
    have first: "e' = e" if "\<exists>rest. rejections es order = e' # rest" for e'
      using that Cons by auto
    show ?thesis
    proof (rule exI [of _ "[(Some e, JNull)]"], intro conjI)
      show "sendAsync env st order (Batch requests) (Some cb) = (Inr [(Some e, JNull)], st')"
        by (rule send)
      show "length es = length requests"
        by (rule len)
      show "\<forall>responses. map fulfilment es = map Some responses \<longrightarrow>
          [(Some e, JNull)] = then_catch cb (Inr (JArr responses))
          \<and> (\<forall>i < length requests.
                get_prop (responses ! i) ''id'' = Inr (req_id (requests ! i)))"
        using a by blast
      show "\<forall>r. (None, r) \<in> set [(Some e, JNull)] \<longrightarrow>
          (\<exists>responses. r = JArr responses \<and> map fulfilment es = map Some responses)"
        by simp
      show "(\<forall>i < length es. rejection (es ! i) = None)
          \<and> (\<exists>i < length es. fulfilment (es ! i) = None) \<longrightarrow> [(Some e, JNull)] = []"
        using i by auto
      show "\<forall>i e'. i < length es \<and> es ! i = By_executor (Inl e')
            \<and> (\<forall>j < i. \<forall>e''. es ! j \<noteq> By_executor (Inl e'')) \<longrightarrow>
          [(Some e, JNull)] = [(Some e', JNull)]"
      proof (intro allI impI)
        fix k e'
        assume h: "k < length es \<and> es ! k = By_executor (Inl e')
            \<and> (\<forall>j < k. \<forall>e''. es ! j \<noteq> By_executor (Inl e''))"
        then have "\<exists>rest. rejections es order = e' # rest"
          by (intro rejections_executor [of k es e' order]) blast+
        then show "[(Some e, JNull)] = [(Some e', JNull)]"
          using first by simp
      qed
      show "\<forall>i e'. i < length es \<and> es ! i = By_handler (Inl e')
            \<and> (\<forall>j < length es. \<forall>e''. es ! j \<noteq> By_executor (Inl e''))
            \<and> (\<forall>j < i. \<forall>e''. es ! j \<noteq> By_handler (Inl e'')) \<longrightarrow>
          [(Some e, JNull)] = [(Some e', JNull)]"
      proof (intro allI impI)
        fix k e'
        assume h: "k < length es \<and> es ! k = By_handler (Inl e')
            \<and> (\<forall>j < length es. \<forall>e''. es ! j \<noteq> By_executor (Inl e''))
            \<and> (\<forall>j < k. \<forall>e''. es ! j \<noteq> By_handler (Inl e''))"
        then have "\<exists>rest. rejections es order = e' # rest"
          by (intro rejections_handler [of k es e' order]) blast+
        then show "[(Some e, JNull)] = [(Some e', JNull)]"
          using first by simp
      qed
      show "\<forall>pre i post e'. order = pre @ i # post \<and> i < length es \<and> es ! i = Answered (Inl e')
            \<and> (\<forall>j < length es. \<forall>e''. es ! j \<noteq> By_executor (Inl e'') \<and> es ! j \<noteq> By_handler (Inl e''))
            \<and> (\<forall>j \<in> set pre. j < length es \<longrightarrow> rejection (es ! j) = None) \<longrightarrow>
          [(Some e, JNull)] = [(Some e', JNull)]"
      proof (intro allI impI)
        fix pre k post e'
        assume h: "order = pre @ k # post \<and> k < length es \<and> es ! k = Answered (Inl e')
            \<and> (\<forall>j < length es. \<forall>e''. es ! j \<noteq> By_executor (Inl e'') \<and> es ! j \<noteq> By_handler (Inl e''))
            \<and> (\<forall>j \<in> set pre. j < length es \<longrightarrow> rejection (es ! j) = None)"
        then have "\<exists>rest. rejections es order = e' # rest"
          by (intro rejections_answered [of order pre k post es e']) blast+
        then show "[(Some e, JNull)] = [(Some e', JNull)]"
          using first by simp
      qed
      show "(\<exists>i < length es. rejection (es ! i) \<noteq> None) \<longrightarrow>
          (\<exists>i < length es. \<exists>e'. rejection (es ! i) = Some e' \<and> [(Some e, JNull)] = [(Some e', JNull)])"
        using i by blast
    qed
  next
    case Nil
    have norej: "rejection (es ! i) = None" if "i < length es" for i
    proof (cases "rejection (es ! i)")
      case (Some e)
      from rejections_some [OF that Some listed] Nil show ?thesis
        by simp
    qed
    have noexec: "es ! i \<noteq> By_executor (Inl e)" "es ! i \<noteq> By_handler (Inl e)"
      "es ! i \<noteq> Answered (Inl e)" if "i < length es" for i e
      using norej [OF that] by auto
    show ?thesis
    proof (cases "fulfilled es")
      case None
      then have pn: "p = None"
        using Nil by (simp add: p Promise_all_def)
      have send: "sendAsync env st order (Batch requests) (Some cb) = (Inr [], st')"
        using run pn by (simp add: sendAsync_def)
      have a: "map fulfilment es \<noteq> map Some responses" for responses
        using None fulfilled_iff [of es responses] by auto
      show ?thesis
      proof (rule exI [of _ "[]"], intro conjI)
        show "sendAsync env st order (Batch requests) (Some cb) = (Inr [], st')"
          by (rule send)
        show "length es = length requests"
          by (rule len)
        show "\<forall>responses. map fulfilment es = map Some responses \<longrightarrow>
            [] = then_catch cb (Inr (JArr responses))
            \<and> (\<forall>i < length requests.
                  get_prop (responses ! i) ''id'' = Inr (req_id (requests ! i)))"
          using a by blast
        show "\<forall>r. (None, r) \<in> set [] \<longrightarrow>
            (\<exists>responses. r = JArr responses \<and> map fulfilment es = map Some responses)"
          by simp
        show "(\<forall>i < length es. rejection (es ! i) = None)
            \<and> (\<exists>i < length es. fulfilment (es ! i) = None) \<longrightarrow> [] = []"
          by simp
        show "\<forall>i e. i < length es \<and> es ! i = By_executor (Inl e)
              \<and> (\<forall>j < i. \<forall>e'. es ! j \<noteq> By_executor (Inl e')) \<longrightarrow> [] = [(Some e, JNull)]"
        proof (intro allI impI)
          fix i e
          assume "i < length es \<and> es ! i = By_executor (Inl e)
              \<and> (\<forall>j < i. \<forall>e'. es ! j \<noteq> By_executor (Inl e'))"
          with noexec(1) [of i e] show "[] = [(Some e, JNull)]"
            by simp
        qed
        show "\<forall>i e. i < length es \<and> es ! i = By_handler (Inl e)
              \<and> (\<forall>j < length es. \<forall>e'. es ! j \<noteq> By_executor (Inl e'))
              \<and> (\<forall>j < i. \<forall>e'. es ! j \<noteq> By_handler (Inl e')) \<longrightarrow> [] = [(Some e, JNull)]"
        proof (intro allI impI)
          fix i e
          assume "i < length es \<and> es ! i = By_handler (Inl e)
              \<and> (\<forall>j < length es. \<forall>e'. es ! j \<noteq> By_executor (Inl e'))
              \<and> (\<forall>j < i. \<forall>e'. es ! j \<noteq> By_handler (Inl e'))"
          with noexec(2) [of i e] show "[] = [(Some e, JNull)]"
            by simp
        qed
        show "\<forall>pre i post e. order = pre @ i # post \<and> i < length es \<and> es ! i = Answered (Inl e)
              \<and> (\<forall>j < length es. \<forall>e'. es ! j \<noteq> By_executor (Inl e') \<and> es ! j \<noteq> By_handler (Inl e'))
              \<and> (\<forall>j \<in> set pre. j < length es \<longrightarrow> rejection (es ! j) = None) \<longrightarrow>
            [] = [(Some e, JNull)]"
        proof (intro allI impI)
          fix pre i post e
          assume "order = pre @ i # post \<and> i < length es \<and> es ! i = Answered (Inl e)
              \<and> (\<forall>j < length es. \<forall>e'. es ! j \<noteq> By_executor (Inl e') \<and> es ! j \<noteq> By_handler (Inl e'))
              \<and> (\<forall>j \<in> set pre. j < length es \<longrightarrow> rejection (es ! j) = None)"
          with noexec(3) [of i e] show "[] = [(Some e, JNull)]"
            by simp
        qed
        show "(\<exists>i < length es. rejection (es ! i) \<noteq> None) \<longrightarrow>
            (\<exists>i < length es. \<exists>e. rejection (es ! i) = Some e \<and> [] = [(Some e, JNull)])"
          using norej by fastforce
      qed
    next
      case (Some vs)
      then have pv: "p = Some (Inr vs)"
        using Nil by (simp add: p Promise_all_def)
      have send: "sendAsync env st order (Batch requests) (Some cb)
          = (Inr (then_catch cb (Inr (JArr vs))), st')"
        using run pv by (simp add: sendAsync_def)
      have m: "map fulfilment es = map Some vs"
        using Some by (simp add: fulfilled_iff)
      have uniq: "responses = vs" if "map fulfilment es = map Some responses" for responses
      proof -
        from that m have "map Some responses = map Some vs"
          by simp
        then show ?thesis
          by (simp add: inj_map_eq_map [OF inj_Some])
      qed
      have nopending: "fulfilment (es ! i) \<noteq> None" if "i < length es" for i
        using Some fulfilled_None [of es] that by auto
      show ?thesis
      proof (rule exI [of _ "then_catch cb (Inr (JArr vs))"], intro conjI)
        show "sendAsync env st order (Batch requests) (Some cb)
            = (Inr (then_catch cb (Inr (JArr vs))), st')"
          by (rule send)
        show "length es = length requests"
          by (rule len)
        show "\<forall>responses. map fulfilment es = map Some responses \<longrightarrow>
            then_catch cb (Inr (JArr vs)) = then_catch cb (Inr (JArr responses))
            \<and> (\<forall>i < length requests.
                  get_prop (responses ! i) ''id'' = Inr (req_id (requests ! i)))"
          using uniq ids by blast
        show "\<forall>r. (None, r) \<in> set (then_catch cb (Inr (JArr vs))) \<longrightarrow>
            (\<exists>responses. r = JArr responses \<and> map fulfilment es = map Some responses)"
          using m by (auto simp: then_catch_def split: sum.splits)
        show "(\<forall>i < length es. rejection (es ! i) = None)
            \<and> (\<exists>i < length es. fulfilment (es ! i) = None) \<longrightarrow>
            then_catch cb (Inr (JArr vs)) = []"
          using nopending by fastforce
        show "\<forall>i e. i < length es \<and> es ! i = By_executor (Inl e)
              \<and> (\<forall>j < i. \<forall>e'. es ! j \<noteq> By_executor (Inl e')) \<longrightarrow>
            then_catch cb (Inr (JArr vs)) = [(Some e, JNull)]"
        proof (intro allI impI)
          fix i e
          assume "i < length es \<and> es ! i = By_executor (Inl e)
              \<and> (\<forall>j < i. \<forall>e'. es ! j \<noteq> By_executor (Inl e'))"
          with noexec(1) [of i e] show "then_catch cb (Inr (JArr vs)) = [(Some e, JNull)]"
            by simp
        qed
        show "\<forall>i e. i < length es \<and> es ! i = By_handler (Inl e)
              \<and> (\<forall>j < length es. \<forall>e'. es ! j \<noteq> By_executor (Inl e'))
              \<and> (\<forall>j < i. \<forall>e'. es ! j \<noteq> By_handler (Inl e')) \<longrightarrow>
            then_catch cb (Inr (JArr vs)) = [(Some e, JNull)]"
        proof (intro allI impI)
          fix i e
          assume "i < length es \<and> es ! i = By_handler (Inl e)
              \<and> (\<forall>j < length es. \<forall>e'. es ! j \<noteq> By_executor (Inl e'))
              \<and> (\<forall>j < i. \<forall>e'. es ! j \<noteq> By_handler (Inl e'))"
          with noexec(2) [of i e] show "then_catch cb (Inr (JArr vs)) = [(Some e, JNull)]"
            by simp
        qed
        show "\<forall>pre i post e. order = pre @ i # post \<and> i < length es \<and> es ! i = Answered (Inl e)
              \<and> (\<forall>j < length es. \<forall>e'. es ! j \<noteq> By_executor (Inl e') \<and> es ! j \<noteq> By_handler (Inl e'))
              \<and> (\<forall>j \<in> set pre. j < length es \<longrightarrow> rejection (es ! j) = None) \<longrightarrow>
            then_catch cb (Inr (JArr vs)) = [(Some e, JNull)]"
        proof (intro allI impI)
          fix pre i post e
          assume "order = pre @ i # post \<and> i < length es \<and> es ! i = Answered (Inl e)
              \<and> (\<forall>j < length es. \<forall>e'. es ! j \<noteq> By_executor (Inl e') \<and> es ! j \<noteq> By_handler (Inl e'))
              \<and> (\<forall>j \<in> set pre. j < length es \<longrightarrow> rejection (es ! j) = None)"
          with noexec(3) [of i e] show "then_catch cb (Inr (JArr vs)) = [(Some e, JNull)]"
            by simp
        qed
        show "(\<exists>i < length es. rejection (es ! i) \<noteq> None) \<longrightarrow>
            (\<exists>i < length es. \<exists>e. rejection (es ! i) = Some e
               \<and> then_catch cb (Inr (JArr vs)) = [(Some e, JNull)])"
          using norej by fastforce
      qed
    qed
  qed
qed

lemma env_refusing_sel2:
  "ensureHexString env_refusing = sample_ensureHexString"
  "openWalletLinkWindow env_refusing = Some \<lparr>opener = True\<rparr>"
  "storage_setItem env_refusing = (\<lambda>key value. Inr ())"
  by (simp_all add: env_refusing_def env0_def)

lemma unauthorized_error: "addresses st = [] \<Longrightarrow>
  requireAuthorization st = Inl (ProviderError (JStr ''Unauthorized'') UNAUTHORIZED JUndefined)"
  by (simp add: requireAuthorization_def)

lemma begin_accounts:
  "begin_element env st accounts_request = (By_executor (Inr (response (JNum 1) (eth_accounts st))), st)"
  by (simp add: begin_element_def settles_def sendRequestAsync_begin_def handleSynchronousMethods_def
      accounts_request_def eth_accounts_def)

lemma begin_version:
  "begin_element env0 st version_request = (By_executor (Inr (response (JNum 2) (JStr ''1''))), st)"
  by (simp add: begin_element_def settles_def sendRequestAsync_begin_def handleSynchronousMethods_def
      version_request_def net_version_def number_toString_def env0_sel show_int_def show_nat.simps)

lemma begin_bad_uninstall:
  "ensureHexString env = sample_ensureHexString \<Longrightarrow>
   begin_element env st bad_uninstall_request =
     (By_executor (Inl (Error ''Not a hexadecimal string'')), st)"
  by (simp add: begin_element_def settles_def sendRequestAsync_begin_def handleSynchronousMethods_def
      bad_uninstall_request_def eth_uninstallFilter_def params_of_def sample_ensureHexString.simps)

lemma begin_sign_unauthorized:
  "addresses st = [] \<Longrightarrow>
   begin_element env st sign_request =
     (By_handler (Inl (ProviderError (JStr ''Unauthorized'') UNAUTHORIZED JUndefined)), st)"
  by (simp add: begin_element_def settles_def sendRequestAsync_begin_def handleSynchronousMethods_def
      handleAsynchronousFilterMethods_def handleAsynchronousMethods_begin_def settled_def
      sign_request_def eth_sign_def unauthorized_error resolve_with_id_def)

lemma begin_sign_refused:
  "addresses st = [alice] \<Longrightarrow>
   begin_element env_refusing st sign_request =
     (Awaiting (Inl (ProviderError (JStr ''User denied message signature'')
                       USER_DENIED_REQUEST_SIGNATURE JUndefined)),
      log (SignEthereumMessage [0x12, 0x34] alice False) st)"
  by (simp add: begin_element_def settles_def sendRequestAsync_begin_def handleSynchronousMethods_def
      handleAsynchronousFilterMethods_def handleAsynchronousMethods_begin_def settled_def
      sign_request_def params_of_def eth_sign_def requireAuthorization_def env_refusing_sel
      buffer_1234 alice_ok try_relay_rejected rethrow_denied_message contains_2
      denied_message_signature_def resolve_with_id_def log_def)

lemma prepare_tx5_alice:
  "addresses st = [alice] \<Longrightarrow>
   prepareTransactionParams env_refusing st
     (tx_argument (JArr [JObj [(''to'', JStr bob), (''value'', JStr ''0x5'')]])) = Inr tx5"
  by (simp add: prepareTransactionParams_def tx_argument_def and_then_def optional_def
      selectedAddress_def env_refusing_sel bob_ok bn_0x5 tx5_def alice_bob)

lemma begin_sign_tx_refused:
  "addresses st = [alice] \<Longrightarrow>
   begin_element env_refusing st sign_tx_request =
     (Awaiting (Inl (Error ''relay timed out'')), log (SignEthereumTransaction tx5) st)"
  by (simp add: begin_element_def settles_def sendRequestAsync_begin_def handleSynchronousMethods_def
      handleAsynchronousFilterMethods_def handleAsynchronousMethods_begin_def settled_def
      sign_tx_request_def params_of_def eth_signTransaction_def requireAuthorization_def
      prepare_tx5_alice env_refusing_sel try_relay_rejected rethrow_denied_message contains_3
      resolve_with_id_def log_def)

lemma begin_linking:
  "openWalletLinkWindow env = Some \<lparr>opener = True\<rparr> \<Longrightarrow> cfg_appName env = ''DApp'' \<Longrightarrow>
   begin_element env unauthorized linking_request = (Awaiting_accounts, linking)"
  by (simp add: begin_element_def sendRequestAsync_begin_def handleSynchronousMethods_def
      handleAsynchronousFilterMethods_def handleAsynchronousMethods_begin_def
      eth_requestAccounts_begin_def linking_request_def unauthorized_def linking_def log_def)

lemma resume_linking_refused:
  "sendRequestAsync_resume env_refusing linking linking_request =
     (Inl (ProviderError (JStr ''User denied account authorization'')
             USER_DENIED_REQUEST_ACCOUNTS JUndefined),
      \<lparr>addresses = [], walletLinkWindow = None,
       trace = [OpenWalletLinkWindow, RequestEthereumAccounts ''DApp'', CloseWalletLinkWindow,
                WindowFocus]\<rparr>)"
  by (simp add: sendRequestAsync_resume_def eth_requestAccounts_resume_def env_refusing_sel
      rethrow_denied_message contains_1 denied_accounts_def resolve_with_id_def linking_def log_def)

lemma resume_linking_approved:
  "sendRequestAsync_resume env0 linking linking_request =
     (Inr (response (JNum 3) (JArr [JStr alice])),
      \<lparr>addresses = [alice], walletLinkWindow = None,
       trace = [OpenWalletLinkWindow, RequestEthereumAccounts ''DApp'', CloseWalletLinkWindow,
                WindowFocus, StorageSetItem ''WalletLinkProvider:0123456789:addresses'' [alice],
                Emit ''accountsChanged'' [alice]]\<rparr>)"
  by (simp add: sendRequestAsync_resume_def eth_requestAccounts_resume_def env0_sel
      setAddresses_def alice_ok localStorageAddressesKey_def eth_accounts_def resolve_with_id_def
      with_id_response linking_def log_def)
    (simp add: env0_def linking_request_def)

lemma run_two_sync:
  "sendMultipleRequestsAsync env0 authorized [] [accounts_request, version_request] =
     ((Some (Inr [response (JNum 1) (JArr [JStr alice]), response (JNum 2) (JStr ''1'')]),
       [By_executor (Inr (response (JNum 1) (JArr [JStr alice]))),
        By_executor (Inr (response (JNum 2) (JStr ''1'')))]),
      authorized)"
  by (simp add: sendMultipleRequestsAsync_def begin_accounts begin_version Promise_all_def
      rejections_def eth_accounts_def authorized_def)

lemma run_second_throws:
  "sendMultipleRequestsAsync env0 authorized [] [accounts_request, bad_uninstall_request] =
     ((Some (Inl (Error ''Not a hexadecimal string'')),
       [By_executor (Inr (response (JNum 1) (JArr [JStr alice]))),
        By_executor (Inl (Error ''Not a hexadecimal string''))]),
      authorized)"
  by (simp add: sendMultipleRequestsAsync_def begin_accounts begin_bad_uninstall env0_sel
      Promise_all_def rejections_def eth_accounts_def authorized_def)

lemma run_executor_first:
  "sendMultipleRequestsAsync env0 unauthorized [] [sign_request, bad_uninstall_request] =
     ((Some (Inl (Error ''Not a hexadecimal string'')),
       [By_handler (Inl (ProviderError (JStr ''Unauthorized'') UNAUTHORIZED JUndefined)),
        By_executor (Inl (Error ''Not a hexadecimal string''))]),
      unauthorized)"
proof -
  have u: "addresses unauthorized = []"
    by (simp add: unauthorized_def)
  show ?thesis
    by (simp add: sendMultipleRequestsAsync_def begin_sign_unauthorized [OF u] begin_bad_uninstall
        env0_sel Promise_all_def rejections_def)
qed

lemma linking_unauthorized: "addresses linking = []"
  by (simp add: linking_def)

lemma run_handler_before_answer:
  "sendMultipleRequestsAsync env_refusing unauthorized [0] [linking_request, sign_request] =
     ((Some (Inl (ProviderError (JStr ''Unauthorized'') UNAUTHORIZED JUndefined)),
       [Answered (Inl (ProviderError (JStr ''User denied account authorization'')
                         USER_DENIED_REQUEST_ACCOUNTS JUndefined)),
        By_handler (Inl (ProviderError (JStr ''Unauthorized'') UNAUTHORIZED JUndefined))]),
      \<lparr>addresses = [], walletLinkWindow = None,
       trace = [OpenWalletLinkWindow, RequestEthereumAccounts ''DApp'', CloseWalletLinkWindow,
                WindowFocus]\<rparr>)"
  by (simp add: sendMultipleRequestsAsync_def begin_linking env_refusing_sel env_refusing_sel2
      begin_sign_unauthorized [OF linking_unauthorized] resume_linking_refused Promise_all_def
      rejections_def)

lemma run_pending:
  "sendMultipleRequestsAsync env0 unauthorized [] [linking_request, accounts_request] =
     ((None, [Awaiting_accounts, By_executor (Inr (response (JNum 1) (JArr [])))]), linking)"
  by (simp add: sendMultipleRequestsAsync_def begin_linking env0_sel begin_accounts Promise_all_def
      rejections_def eth_accounts_def linking_unauthorized)

lemma run_answered:
  "sendMultipleRequestsAsync env0 unauthorized [0] [linking_request, accounts_request] =
     ((Some (Inr [response (JNum 3) (JArr [JStr alice]), response (JNum 1) (JArr [])]),
       [Answered (Inr (response (JNum 3) (JArr [JStr alice]))),
        By_executor (Inr (response (JNum 1) (JArr [])))]),
      \<lparr>addresses = [alice], walletLinkWindow = None,
       trace = [OpenWalletLinkWindow, RequestEthereumAccounts ''DApp'', CloseWalletLinkWindow,
                WindowFocus, StorageSetItem ''WalletLinkProvider:0123456789:addresses'' [alice],
                Emit ''accountsChanged'' [alice]]\<rparr>)"
  by (simp add: sendMultipleRequestsAsync_def begin_linking env0_sel begin_accounts
      resume_linking_approved Promise_all_def rejections_def eth_accounts_def linking_unauthorized)

lemma run_answer_order:
  "sendMultipleRequestsAsync env_refusing authorized [1, 0] [sign_request, sign_tx_request] =
     ((Some (Inl (Error ''relay timed out'')),
       [Answered (Inl (ProviderError (JStr ''User denied message signature'')
                         USER_DENIED_REQUEST_SIGNATURE JUndefined)),
        Answered (Inl (Error ''relay timed out''))]),
      signing)"
proof -
  have a: "addresses authorized = [alice]"
    "addresses (log (SignEthereumMessage [0x12, 0x34] alice False) authorized) = [alice]"
    by (simp_all add: authorized_def log_def)
  show ?thesis
    by (simp add: sendMultipleRequestsAsync_def begin_sign_refused [OF a(1)]
        begin_sign_tx_refused [OF a(2)] Promise_all_def rejections_def)
      (simp add: log_def authorized_def signing_def)
qed

theorem batch_callback_all_or_nothing_witness:
  "sendAsync env0 authorized [] (Batch [accounts_request, version_request]) (Some cb_ok) =
     (Inr [(None, JArr [response (JNum 1) (JArr [JStr alice]), response (JNum 2) (JStr ''1'')])],
      authorized)
   \<and> sendAsync env0 authorized [] (Batch [accounts_request, bad_uninstall_request]) (Some cb_ok) =
     (Inr [(Some (Error ''Not a hexadecimal string''), JNull)], authorized)
   \<and> sendAsync env0 unauthorized [] (Batch [sign_request, bad_uninstall_request]) (Some cb_ok) =
     (Inr [(Some (Error ''Not a hexadecimal string''), JNull)], unauthorized)
   \<and> fst (sendAsync env_refusing unauthorized [0] (Batch [linking_request, sign_request]) (Some cb_ok)) =
     Inr [(Some (ProviderError (JStr ''Unauthorized'') UNAUTHORIZED JUndefined), JNull)]
   \<and> sendAsync env_refusing authorized [1, 0] (Batch [sign_request, sign_tx_request]) (Some cb_ok) =
     (Inr [(Some (Error ''relay timed out''), JNull)], signing)
   \<and> sendAsync env0 unauthorized [] (Batch [linking_request, accounts_request]) (Some cb_ok) =
     (Inr [], linking)"
proof -
  let ?unauth = "ProviderError (JStr ''Unauthorized'') UNAUTHORIZED JUndefined"
  let ?hex = "Error ''Not a hexadecimal string''"
  have w1: "sendAsync env0 authorized [] (Batch [accounts_request, version_request]) (Some cb_ok) =
     (Inr [(None, JArr [response (JNum 1) (JArr [JStr alice]), response (JNum 2) (JStr ''1'')])],
      authorized)"
  proof -
    let ?es = "[By_executor (Inr (response (JNum 1) (JArr [JStr alice]))),
                By_executor (Inr (response (JNum 2) (JStr ''1'')))]"
    from batch_callback_all_or_nothing [OF run_two_sync, of cb_ok]
    obtain calls where
      s: "sendAsync env0 authorized [] (Batch [accounts_request, version_request]) (Some cb_ok)
            = (Inr calls, authorized)"
      and c: "\<forall>responses. map fulfilment ?es = map Some responses \<longrightarrow>
          calls = then_catch cb_ok (Inr (JArr responses))
          \<and> (\<forall>i < length [accounts_request, version_request].
                get_prop (responses ! i) ''id'' = Inr (req_id ([accounts_request, version_request] ! i)))"
      by (elim exE conjE) (rule that)
    from c [rule_format, of "[response (JNum 1) (JArr [JStr alice]), response (JNum 2) (JStr ''1'')]"]
    have "calls = [(None, JArr [response (JNum 1) (JArr [JStr alice]), response (JNum 2) (JStr ''1'')])]"
      by (simp add: then_catch_def cb_ok_def)
    with s show ?thesis
      by simp
  qed
  have w2: "sendAsync env0 authorized [] (Batch [accounts_request, bad_uninstall_request]) (Some cb_ok) =
     (Inr [(Some ?hex, JNull)], authorized)"
  proof -
    let ?es = "[By_executor (Inr (response (JNum 1) (JArr [JStr alice]))), By_executor (Inl ?hex)]"
    from batch_callback_all_or_nothing [OF run_second_throws, of cb_ok]
    obtain calls where
      s: "sendAsync env0 authorized [] (Batch [accounts_request, bad_uninstall_request]) (Some cb_ok)
            = (Inr calls, authorized)"
      and c: "\<forall>i e. i < length ?es \<and> ?es ! i = By_executor (Inl e)
            \<and> (\<forall>j < i. \<forall>e'. ?es ! j \<noteq> By_executor (Inl e')) \<longrightarrow>
          calls = [(Some e, JNull)]"
      by (elim exE conjE) (rule that)
    from c [rule_format, of 1 ?hex] have "calls = [(Some ?hex, JNull)]"
      by simp
    with s show ?thesis
      by simp
  qed
  have w3: "sendAsync env0 unauthorized [] (Batch [sign_request, bad_uninstall_request]) (Some cb_ok) =
     (Inr [(Some ?hex, JNull)], unauthorized)"
  proof -
    let ?es = "[By_handler (Inl ?unauth), By_executor (Inl ?hex)]"
    from batch_callback_all_or_nothing [OF run_executor_first, of cb_ok]
    obtain calls where
      s: "sendAsync env0 unauthorized [] (Batch [sign_request, bad_uninstall_request]) (Some cb_ok)
            = (Inr calls, unauthorized)"
      and c: "\<forall>i e. i < length ?es \<and> ?es ! i = By_executor (Inl e)
            \<and> (\<forall>j < i. \<forall>e'. ?es ! j \<noteq> By_executor (Inl e')) \<longrightarrow>
          calls = [(Some e, JNull)]"
      by (elim exE conjE) (rule that)
    from c [rule_format, of 1 ?hex] have "calls = [(Some ?hex, JNull)]"
      by simp
    with s show ?thesis
      by simp
  qed
  have w4: "fst (sendAsync env_refusing unauthorized [0] (Batch [linking_request, sign_request])
      (Some cb_ok)) = Inr [(Some ?unauth, JNull)]"
  proof -
    let ?es = "[Answered (Inl (ProviderError (JStr ''User denied account authorization'')
                         USER_DENIED_REQUEST_ACCOUNTS JUndefined)),
                By_handler (Inl ?unauth)]"
    from batch_callback_all_or_nothing [OF run_handler_before_answer, of cb_ok]
    obtain calls where
      s: "sendAsync env_refusing unauthorized [0] (Batch [linking_request, sign_request]) (Some cb_ok)
            = (Inr calls,
               \<lparr>addresses = [], walletLinkWindow = None,
                trace = [OpenWalletLinkWindow, RequestEthereumAccounts ''DApp'',
                         CloseWalletLinkWindow, WindowFocus]\<rparr>)"
      and c: "\<forall>i e. i < length ?es \<and> ?es ! i = By_handler (Inl e)
            \<and> (\<forall>j < length ?es. \<forall>e'. ?es ! j \<noteq> By_executor (Inl e'))
            \<and> (\<forall>j < i. \<forall>e'. ?es ! j \<noteq> By_handler (Inl e')) \<longrightarrow>
          calls = [(Some e, JNull)]"
      by (elim exE conjE) (rule that)
    from c [rule_format, of 1 ?unauth] have "calls = [(Some ?unauth, JNull)]"
      by (simp add: less_Suc_eq)
    with s show ?thesis
      by simp
  qed
  have w5: "sendAsync env_refusing authorized [1, 0] (Batch [sign_request, sign_tx_request]) (Some cb_ok) =
     (Inr [(Some (Error ''relay timed out''), JNull)], signing)"
  proof -
    let ?es = "[Answered (Inl (ProviderError (JStr ''User denied message signature'')
                         USER_DENIED_REQUEST_SIGNATURE JUndefined)),
                Answered (Inl (Error ''relay timed out''))]"
    from batch_callback_all_or_nothing [OF run_answer_order, of cb_ok]
    obtain calls where
      s: "sendAsync env_refusing authorized [1, 0] (Batch [sign_request, sign_tx_request]) (Some cb_ok)
            = (Inr calls, signing)"
      and c: "\<forall>pre i post e. [1, 0] = pre @ i # post \<and> i < length ?es \<and> ?es ! i = Answered (Inl e)
            \<and> (\<forall>j < length ?es. \<forall>e'. ?es ! j \<noteq> By_executor (Inl e') \<and> ?es ! j \<noteq> By_handler (Inl e'))
            \<and> (\<forall>j \<in> set pre. j < length ?es \<longrightarrow> rejection (?es ! j) = None) \<longrightarrow>
          calls = [(Some e, JNull)]"
      by (elim exE conjE) (rule that)
    from c [rule_format, of "[]" 1 "[0]" "Error ''relay timed out''"]
    have "calls = [(Some (Error ''relay timed out''), JNull)]"
      by (simp add: less_Suc_eq)
    with s show ?thesis
      by simp
  qed
  have w6: "sendAsync env0 unauthorized [] (Batch [linking_request, accounts_request]) (Some cb_ok) =
     (Inr [], linking)"
  proof -
    let ?es = "[Awaiting_accounts, By_executor (Inr (response (JNum 1) (JArr [])))]"
    from batch_callback_all_or_nothing [OF run_pending, of cb_ok]
    obtain calls where
      s: "sendAsync env0 unauthorized [] (Batch [linking_request, accounts_request]) (Some cb_ok)
            = (Inr calls, linking)"
      and c: "(\<forall>i < length ?es. rejection (?es ! i) = None)
          \<and> (\<exists>i < length ?es. fulfilment (?es ! i) = None) \<longrightarrow> calls = []"
      by (elim exE conjE) (rule that)
    have a: "\<forall>i < length ?es. rejection (?es ! i) = None"
      by (simp add: less_Suc_eq)
    have b: "\<exists>i < length ?es. fulfilment (?es ! i) = None"
      by (rule exI [of _ 0]) simp
    from c a b have "calls = []"
      by (rule mp [OF _ conjI])
    with s show ?thesis
      by simp
  qed
  from w1 w2 w3 w4 w5 w6 show ?thesis
    by simp
qed

text \<open>
  The two halves at work: in a batch of a request for accounts and a request of the
  account list, sent to an unauthorized provider, the second element is answered
  with the empty list before the relay answers the first; once the relay has
  answered, the callback gets both responses in the order of the requests.
\<close>

lemma batch_interleaving_example:
  "sendAsync env0 unauthorized [0] (Batch [linking_request, accounts_request]) (Some cb_ok) =
     (Inr [(None, JArr [response (JNum 3) (JArr [JStr alice]), response (JNum 1) (JArr [])])],
      \<lparr>addresses = [alice], walletLinkWindow = None,
       trace = [OpenWalletLinkWindow, RequestEthereumAccounts ''DApp'', CloseWalletLinkWindow,
                WindowFocus, StorageSetItem ''WalletLinkProvider:0123456789:addresses'' [alice],
                Emit ''accountsChanged'' [alice]]\<rparr>)"
  by (simp add: sendAsync_def run_answered then_catch_def cb_ok_def)

end
